theory Spec2Isabelle
  imports Complex_Main "HOL-Library.AList"
begin

section \<open>The highlighter service: data model\<close>

text \<open>
  A shallow embedding of \<^verbatim>\<open>src/app/services/highlighter/index.ts\<close>
  (class \<^verbatim>\<open>HighlighterService\<close>). JavaScript objects used as dictionaries are
  association lists in insertion order (\<^verbatim>\<open>Vue.set\<close> on a present key keeps its
  place, on a new key appends; \<^verbatim>\<open>Vue.delete\<close> drops the key). Order positions
  and frame counts are integers, times and trims are rationals (the source's numbers; NaN and
  the infinities are left out). An optional field is an \<open>option\<close>.
\<close>

datatype TSource = Manual | ReplayBuffer | AiClip

record TStreamInfo =
  orderPosition :: int
  initialStartTime :: "rat option"
  initialEndTime :: "rat option"

text \<open>
  Modelled from the spec: the declaration of \<^verbatim>\<open>IAiClipInfo\<close> lives in
  \<^verbatim>\<open>models/highlighter.models\<close>, which is not part of the sources at hand; the
  spec gives it as inputs, score and an optional round.
\<close>

record IAiClipInfo =
  ai_inputs :: "string list"
  ai_score :: rat
  ai_round :: "int option"

record TClip =
  path :: string
  loaded :: bool
  enabled :: bool
  scrubSprite :: "string option"
  startTrim :: rat
  endTrim :: rat
  duration :: "rat option"
  deleted :: bool
  source :: TSource
  globalOrderPosition :: int
  streamInfo :: "(string \<times> TStreamInfo) list option"
  aiInfo :: "IAiClipInfo option"

text \<open>
  \<^verbatim>\<open>Partial<TClip> & { path: string }\<close>: the path, and the fields the object
  literal sets, in the order it sets them.
\<close>

datatype clip_update =
    Loaded bool
  | Enabled bool
  | ScrubSprite "string option"
  | StartTrim rat
  | EndTrim rat
  | Duration "rat option"
  | Deleted bool
  | GlobalOrderPosition int
  | StreamInfo "(string \<times> TStreamInfo) list"

fun set_clip_field :: "TClip \<Rightarrow> clip_update \<Rightarrow> TClip" where
  "set_clip_field c (Loaded b) = c\<lparr>loaded := b\<rparr>"
| "set_clip_field c (Enabled b) = c\<lparr>enabled := b\<rparr>"
| "set_clip_field c (ScrubSprite x) = c\<lparr>scrubSprite := x\<rparr>"
| "set_clip_field c (StartTrim t) = c\<lparr>startTrim := t\<rparr>"
| "set_clip_field c (EndTrim t) = c\<lparr>endTrim := t\<rparr>"
| "set_clip_field c (Duration d) = c\<lparr>duration := d\<rparr>"
| "set_clip_field c (Deleted b) = c\<lparr>deleted := b\<rparr>"
| "set_clip_field c (GlobalOrderPosition n) = c\<lparr>globalOrderPosition := n\<rparr>"
| "set_clip_field c (StreamInfo si) = c\<lparr>streamInfo := Some si\<rparr>"

datatype EExportStep = AudioMix | FrameRender

record IExportInfo =
  exporting :: bool
  currentFrame :: int
  totalFrames :: int
  step :: EExportStep
  cancelRequested :: bool
  export_file :: string
  previewFile :: string
  exported :: bool
  error :: "string option"
  fps :: int
  resolution :: int
  preset :: string

datatype export_update =
    Exporting bool
  | CurrentFrame int
  | TotalFrames int
  | Step EExportStep
  | CancelRequested bool
  | File string
  | PreviewFile string
  | Exported bool
  | Error "string option"
  | Fps int
  | Resolution int
  | Preset string

fun set_export_field :: "IExportInfo \<Rightarrow> export_update \<Rightarrow> IExportInfo" where
  "set_export_field e (Exporting b) = e\<lparr>exporting := b\<rparr>"
| "set_export_field e (CurrentFrame n) = e\<lparr>currentFrame := n\<rparr>"
| "set_export_field e (TotalFrames n) = e\<lparr>totalFrames := n\<rparr>"
| "set_export_field e (Step x) = e\<lparr>step := x\<rparr>"
| "set_export_field e (CancelRequested b) = e\<lparr>cancelRequested := b\<rparr>"
| "set_export_field e (File f) = e\<lparr>export_file := f\<rparr>"
| "set_export_field e (PreviewFile f) = e\<lparr>previewFile := f\<rparr>"
| "set_export_field e (Exported b) = e\<lparr>exported := b\<rparr>"
| "set_export_field e (Error x) = e\<lparr>error := x\<rparr>"
| "set_export_field e (Fps n) = e\<lparr>fps := n\<rparr>"
| "set_export_field e (Resolution n) = e\<lparr>resolution := n\<rparr>"
| "set_export_field e (Preset p) = e\<lparr>preset := p\<rparr>"

text \<open>
  \<^verbatim>\<open>EUploadPlatform\<close> is declared outside the sources at hand; the code names
  its member \<^verbatim>\<open>YOUTUBE\<close> and passes any other member to
  \<^verbatim>\<open>uploadStorage\<close>.
\<close>

datatype EUploadPlatform = YOUTUBE | StoragePlatform string

record IUploadInfo =
  platform :: EUploadPlatform
  uploading :: bool
  uploadedBytes :: int
  totalBytes :: int
  upload_cancelRequested :: bool
  videoId :: "string option"
  upload_error :: bool

datatype upload_update =
    Uploading bool
  | UploadedBytes int
  | TotalBytes int
  | UploadCancelRequested bool
  | VideoId "string option"
  | UploadError bool

fun set_upload_field :: "IUploadInfo \<Rightarrow> upload_update \<Rightarrow> IUploadInfo" where
  "set_upload_field u (Uploading b) = u\<lparr>uploading := b\<rparr>"
| "set_upload_field u (UploadedBytes n) = u\<lparr>uploadedBytes := n\<rparr>"
| "set_upload_field u (TotalBytes n) = u\<lparr>totalBytes := n\<rparr>"
| "set_upload_field u (UploadCancelRequested b) = u\<lparr>upload_cancelRequested := b\<rparr>"
| "set_upload_field u (VideoId x) = u\<lparr>videoId := x\<rparr>"
| "set_upload_field u (UploadError b) = u\<lparr>upload_error := b\<rparr>"

record ITransitionInfo =
  transition_type :: string
  transition_duration :: rat

datatype transition_update = TransitionType string | TransitionDuration rat

fun set_transition_field :: "ITransitionInfo \<Rightarrow> transition_update \<Rightarrow> ITransitionInfo" where
  "set_transition_field t (TransitionType x) = t\<lparr>transition_type := x\<rparr>"
| "set_transition_field t (TransitionDuration d) = t\<lparr>transition_duration := d\<rparr>"

record IAudioInfo =
  musicEnabled :: bool
  musicPath :: string
  musicVolume :: rat

datatype audio_update = MusicEnabled bool | MusicPath string | MusicVolume rat

fun set_audio_field :: "IAudioInfo \<Rightarrow> audio_update \<Rightarrow> IAudioInfo" where
  "set_audio_field a (MusicEnabled b) = a\<lparr>musicEnabled := b\<rparr>"
| "set_audio_field a (MusicPath p) = a\<lparr>musicPath := p\<rparr>"
| "set_audio_field a (MusicVolume v) = a\<lparr>musicVolume := v\<rparr>"

record IVideoClipInfo =
  video_path :: string
  video_duration :: "rat option"

record IVideoInfo =
  intro :: IVideoClipInfo
  outro :: IVideoClipInfo

datatype video_update = Intro IVideoClipInfo | Outro IVideoClipInfo

fun set_video_field :: "IVideoInfo \<Rightarrow> video_update \<Rightarrow> IVideoInfo" where
  "set_video_field v (Intro x) = v\<lparr>intro := x\<rparr>"
| "set_video_field v (Outro x) = v\<lparr>outro := x\<rparr>"

datatype EAiDetectionState = IN_PROGRESS | FINISHED | CANCELED_BY_USER | ERROR

record IHighlightedStream =
  stream_id :: string
  stream_title :: string
  stream_game :: string
  stream_date :: string
  stream_path :: string
  state_type :: EAiDetectionState
  state_progress :: rat
  abortController :: bool

datatype EHighlighterView = STREAM | SETTINGS

text \<open>
  What the service hands to its collaborators (file system, dialogs, navigation, the
  rendering engine) is kept as a log of requests, the latest last.
\<close>

record render_job =
  job_isPreview :: bool
  job_renderingClips :: "string list"
  job_width :: int
  job_height :: int
  job_fps :: int
  job_preset :: string
  job_streamId :: "string option"

datatype effect =
    FsRemove string
  | FsUnlink string
  | FsRmdirOf string
  | EnsureScrubDirectory
  | Navigate EHighlighterView
  | ShowMessageBox
  | StartRendering render_job

text \<open>
  The service object: the fields of \<^verbatim>\<open>IHighlighterState\<close> (\<open>exportInfo\<close> is
  \<^verbatim>\<open>state.export\<close>, \<open>state_error\<close> is \<^verbatim>\<open>state.error\<close>), then
  \<^verbatim>\<open>renderingClips\<close> (the paths that have a \<^verbatim>\<open>RenderingClip\<close>) and
  the log of requests.
\<close>

record HighlighterService =
  clips :: "(string \<times> TClip) list"
  transition :: ITransitionInfo
  video :: IVideoInfo
  audio :: IAudioInfo
  exportInfo :: IExportInfo
  uploads :: "IUploadInfo list"
  dismissedTutorial :: bool
  state_error :: string
  useAiHighlighter :: bool
  highlightedStreams :: "IHighlightedStream list"
  highlightedStreamsDictionary :: "(string \<times> IHighlightedStream) list"
  updaterProgress :: rat
  isUpdaterRunning :: bool
  highlighterVersion :: string
  tempRecordingInfo :: "string option"
  renderingClips :: "string list"
  effects :: "effect list"

definition defaultState :: HighlighterService where
  "defaultState = \<lparr>
     clips = [],
     transition = \<lparr>transition_type = ''fade'', transition_duration = 1\<rparr>,
     video = \<lparr>intro = \<lparr>video_path = '''', video_duration = None\<rparr>,
              outro = \<lparr>video_path = '''', video_duration = None\<rparr>\<rparr>,
     audio = \<lparr>musicEnabled = False, musicPath = '''', musicVolume = 50\<rparr>,
     exportInfo = \<lparr>exporting = False, currentFrame = 0, totalFrames = 0, step = AudioMix,
       cancelRequested = False, export_file = '''', previewFile = ''highlighter-preview.mp4'',
       exported = False, error = None, fps = 30, resolution = 1080, preset = ''medium''\<rparr>,
     uploads = [],
     dismissedTutorial = False,
     state_error = '''',
     useAiHighlighter = False,
     highlightedStreams = [],
     highlightedStreamsDictionary = [],
     updaterProgress = 0,
     isUpdaterRunning = False,
     highlighterVersion = '''',
     tempRecordingInfo = None,
     renderingClips = [],
     effects = []\<rparr>"

section \<open>Mutations\<close>

definition ADD_CLIP :: "TClip \<Rightarrow> HighlighterService \<Rightarrow> HighlighterService" where
  "ADD_CLIP clip s =
     s\<lparr>clips := AList.update (path clip) clip (clips s),
       exportInfo := (exportInfo s)\<lparr>exported := False\<rparr>\<rparr>"

text \<open>
  \<^verbatim>\<open>{...this.state.clips[clip.path], ...clip}\<close>. When the key is absent the
  spread of \<^verbatim>\<open>undefined\<close> gives an object holding the fields of the update
  alone; the record then holds, for each field the object lacks, the value that
  \<^verbatim>\<open>undefined\<close> reads as (false, zero, no value).
\<close>

definition blank_clip :: "string \<Rightarrow> TClip" where
  "blank_clip p = \<lparr>path = p, loaded = False, enabled = False, scrubSprite = None,
     startTrim = 0, endTrim = 0, duration = None, deleted = False, source = Manual,
     globalOrderPosition = 0, streamInfo = None, aiInfo = None\<rparr>"

definition UPDATE_CLIP ::
  "string \<Rightarrow> clip_update list \<Rightarrow> HighlighterService \<Rightarrow> HighlighterService" where
  "UPDATE_CLIP p upd s =
     (let old = (case map_of (clips s) p of None \<Rightarrow> blank_clip p | Some c \<Rightarrow> c)
      in s\<lparr>clips := AList.update p (foldl set_clip_field (old\<lparr>path := p\<rparr>) upd) (clips s),
           exportInfo := (exportInfo s)\<lparr>exported := False\<rparr>\<rparr>)"

definition REMOVE_CLIP :: "string \<Rightarrow> HighlighterService \<Rightarrow> HighlighterService" where
  "REMOVE_CLIP clipPath s =
     s\<lparr>clips := AList.delete clipPath (clips s),
       exportInfo := (exportInfo s)\<lparr>exported := False\<rparr>\<rparr>"

definition SET_EXPORT_INFO ::
  "export_update list \<Rightarrow> HighlighterService \<Rightarrow> HighlighterService" where
  "SET_EXPORT_INFO upd s =
     s\<lparr>exportInfo := foldl set_export_field ((exportInfo s)\<lparr>exported := False\<rparr>) upd\<rparr>"

fun update_upload :: "EUploadPlatform \<Rightarrow> upload_update list \<Rightarrow> IUploadInfo list \<Rightarrow> IUploadInfo list"
  where
  "update_upload p upd [] =
     [foldl set_upload_field \<lparr>platform = p, uploading = False, uploadedBytes = 0,
        totalBytes = 0, upload_cancelRequested = False, videoId = None,
        upload_error = False\<rparr> upd]"
| "update_upload p upd (u # us) =
     (if platform u = p then foldl set_upload_field u upd # us
      else u # update_upload p upd us)"

definition SET_UPLOAD_INFO ::
  "EUploadPlatform \<Rightarrow> upload_update list \<Rightarrow> HighlighterService \<Rightarrow> HighlighterService" where
  "SET_UPLOAD_INFO p upd s = s\<lparr>uploads := update_upload p upd (uploads s)\<rparr>"

definition CLEAR_UPLOAD :: "HighlighterService \<Rightarrow> HighlighterService" where
  "CLEAR_UPLOAD s = s\<lparr>uploads := []\<rparr>"

definition SET_TRANSITION_INFO ::
  "transition_update list \<Rightarrow> HighlighterService \<Rightarrow> HighlighterService" where
  "SET_TRANSITION_INFO upd s =
     s\<lparr>transition := foldl set_transition_field (transition s) upd,
       exportInfo := (exportInfo s)\<lparr>exported := False\<rparr>\<rparr>"

definition SET_AUDIO_INFO ::
  "audio_update list \<Rightarrow> HighlighterService \<Rightarrow> HighlighterService" where
  "SET_AUDIO_INFO upd s =
     s\<lparr>audio := foldl set_audio_field (audio s) upd,
       exportInfo := (exportInfo s)\<lparr>exported := False\<rparr>\<rparr>"

definition SET_VIDEO_INFO ::
  "video_update list \<Rightarrow> HighlighterService \<Rightarrow> HighlighterService" where
  "SET_VIDEO_INFO upd s =
     s\<lparr>video := foldl set_video_field (video s) upd,
       exportInfo := (exportInfo s)\<lparr>exported := False\<rparr>\<rparr>"

definition DISMISS_TUTORIAL :: "HighlighterService \<Rightarrow> HighlighterService" where
  "DISMISS_TUTORIAL s = s\<lparr>dismissedTutorial := True\<rparr>"

definition SET_ERROR :: "string \<Rightarrow> HighlighterService \<Rightarrow> HighlighterService" where
  "SET_ERROR e s = s\<lparr>state_error := e\<rparr>"

definition SET_USE_AI_HIGHLIGHTER :: "bool \<Rightarrow> HighlighterService \<Rightarrow> HighlighterService" where
  "SET_USE_AI_HIGHLIGHTER b s = s\<lparr>useAiHighlighter := b\<rparr>"

definition ADD_HIGHLIGHTED_STREAM ::
  "IHighlightedStream \<Rightarrow> HighlighterService \<Rightarrow> HighlighterService" where
  "ADD_HIGHLIGHTED_STREAM streamInfo' s =
     s\<lparr>highlightedStreamsDictionary :=
         AList.update (stream_id streamInfo') streamInfo' (highlightedStreamsDictionary s)\<rparr>"

definition UPDATE_HIGHLIGHTED_STREAM ::
  "IHighlightedStream \<Rightarrow> HighlighterService \<Rightarrow> HighlighterService" where
  "UPDATE_HIGHLIGHTED_STREAM updatedStreamInfo s =
     s\<lparr>highlightedStreamsDictionary :=
         AList.update (stream_id updatedStreamInfo) updatedStreamInfo
           (highlightedStreamsDictionary s)\<rparr>"

definition REMOVE_HIGHLIGHTED_STREAM :: "string \<Rightarrow> HighlighterService \<Rightarrow> HighlighterService"
  where
  "REMOVE_HIGHLIGHTED_STREAM sid s =
     s\<lparr>highlightedStreamsDictionary := AList.delete sid (highlightedStreamsDictionary s)\<rparr>"

definition SET_UPDATER_PROGRESS :: "rat \<Rightarrow> HighlighterService \<Rightarrow> HighlighterService" where
  "SET_UPDATER_PROGRESS p s = s\<lparr>updaterProgress := p\<rparr>"

definition SET_UPDATER_STATE :: "bool \<Rightarrow> HighlighterService \<Rightarrow> HighlighterService" where
  "SET_UPDATER_STATE b s = s\<lparr>isUpdaterRunning := b\<rparr>"

definition SET_HIGHLIGHTER_VERSION :: "string \<Rightarrow> HighlighterService \<Rightarrow> HighlighterService"
  where
  "SET_HIGHLIGHTER_VERSION v s = s\<lparr>highlighterVersion := v\<rparr>"

definition SET_TEMP_RECORDING_INFO ::
  "string option \<Rightarrow> HighlighterService \<Rightarrow> HighlighterService" where
  "SET_TEMP_RECORDING_INFO t s = s\<lparr>tempRecordingInfo := t\<rparr>"

text \<open>The methods tagged \<^verbatim>\<open>@mutation()\<close>, as one command set.\<close>

datatype mutation =
    M_ADD_CLIP TClip
  | M_UPDATE_CLIP string "clip_update list"
  | M_REMOVE_CLIP string
  | M_SET_EXPORT_INFO "export_update list"
  | M_SET_UPLOAD_INFO EUploadPlatform "upload_update list"
  | M_CLEAR_UPLOAD
  | M_SET_TRANSITION_INFO "transition_update list"
  | M_SET_AUDIO_INFO "audio_update list"
  | M_SET_VIDEO_INFO "video_update list"
  | M_DISMISS_TUTORIAL
  | M_SET_ERROR string
  | M_SET_USE_AI_HIGHLIGHTER bool
  | M_ADD_HIGHLIGHTED_STREAM IHighlightedStream
  | M_UPDATE_HIGHLIGHTED_STREAM IHighlightedStream
  | M_REMOVE_HIGHLIGHTED_STREAM string
  | M_SET_UPDATER_PROGRESS rat
  | M_SET_UPDATER_STATE bool
  | M_SET_HIGHLIGHTER_VERSION string
  | M_SET_TEMP_RECORDING_INFO "string option"

fun commit :: "HighlighterService \<Rightarrow> mutation \<Rightarrow> HighlighterService" where
  "commit s (M_ADD_CLIP c) = ADD_CLIP c s"
| "commit s (M_UPDATE_CLIP p upd) = UPDATE_CLIP p upd s"
| "commit s (M_REMOVE_CLIP p) = REMOVE_CLIP p s"
| "commit s (M_SET_EXPORT_INFO upd) = SET_EXPORT_INFO upd s"
| "commit s (M_SET_UPLOAD_INFO p upd) = SET_UPLOAD_INFO p upd s"
| "commit s M_CLEAR_UPLOAD = CLEAR_UPLOAD s"
| "commit s (M_SET_TRANSITION_INFO upd) = SET_TRANSITION_INFO upd s"
| "commit s (M_SET_AUDIO_INFO upd) = SET_AUDIO_INFO upd s"
| "commit s (M_SET_VIDEO_INFO upd) = SET_VIDEO_INFO upd s"
| "commit s M_DISMISS_TUTORIAL = DISMISS_TUTORIAL s"
| "commit s (M_SET_ERROR e) = SET_ERROR e s"
| "commit s (M_SET_USE_AI_HIGHLIGHTER b) = SET_USE_AI_HIGHLIGHTER b s"
| "commit s (M_ADD_HIGHLIGHTED_STREAM x) = ADD_HIGHLIGHTED_STREAM x s"
| "commit s (M_UPDATE_HIGHLIGHTED_STREAM x) = UPDATE_HIGHLIGHTED_STREAM x s"
| "commit s (M_REMOVE_HIGHLIGHTED_STREAM i) = REMOVE_HIGHLIGHTED_STREAM i s"
| "commit s (M_SET_UPDATER_PROGRESS p) = SET_UPDATER_PROGRESS p s"
| "commit s (M_SET_UPDATER_STATE b) = SET_UPDATER_STATE b s"
| "commit s (M_SET_HIGHLIGHTER_VERSION v) = SET_HIGHLIGHTER_VERSION v s"
| "commit s (M_SET_TEMP_RECORDING_INFO t) = SET_TEMP_RECORDING_INFO t s"

text \<open>
  A \<^verbatim>\<open>SET_EXPORT_INFO\<close> whose argument carries \<^verbatim>\<open>exported: true\<close> is
  the one mutation that can raise the flag: \<open>exported_after upd b\<close> is the flag
  after the assignments of \<open>upd\<close>, made on a record where it was \<open>b\<close>.
\<close>

fun exported_after :: "export_update list \<Rightarrow> bool \<Rightarrow> bool" where
  "exported_after [] b = b"
| "exported_after (Exported b' # upd) b = exported_after upd b'"
| "exported_after (_ # upd) b = exported_after upd b"

definition raises_exported :: "export_update list \<Rightarrow> bool" where
  "raises_exported upd = exported_after upd False"

fun sets_exported :: "mutation \<Rightarrow> bool" where
  "sets_exported (M_SET_EXPORT_INFO upd) = raises_exported upd"
| "sets_exported _ = False"

text \<open>What an export is made from: the clip set and the three settings.\<close>

definition export_inputs ::
  "HighlighterService \<Rightarrow> (string \<times> TClip) list \<times> ITransitionInfo \<times> IAudioInfo \<times> IVideoInfo"
  where
  "export_inputs s = (clips s, transition s, audio s, video s)"

section \<open>The clip ledger\<close>

text \<open>
  A stream id argument is \<^verbatim>\<open>string | undefined\<close> and the code tests it with
  \<^verbatim>\<open>if (streamId)\<close>: the empty string counts as no stream id.
\<close>

definition truthy :: "string option \<Rightarrow> bool" where
  "truthy streamId = (case streamId of None \<Rightarrow> False | Some sid \<Rightarrow> sid \<noteq> [])"

text \<open>
  Modelled from the spec: the getter \<^verbatim>\<open>views.clips\<close> belongs to
  \<^verbatim>\<open>HighlighterViews\<close>, which is not part of the sources at hand; the ledger
  "owns the clip map" and the view lists its records.
\<close>

definition views_clips :: "HighlighterService \<Rightarrow> TClip list" where
  "views_clips s = map snd (clips s)"

text \<open>\<^verbatim>\<open>clip.streamInfo?.[id]\<close>\<close>

definition stream_entry :: "TClip \<Rightarrow> string \<Rightarrow> TStreamInfo option" where
  "stream_entry clip sid = (case streamInfo clip of None \<Rightarrow> None | Some si \<Rightarrow> map_of si sid)"

text \<open>
  The filter that \<^verbatim>\<open>getClips\<close> and \<^verbatim>\<open>hasUnloadedClips\<close> apply
  for a stream id: every clip when there is none, else the clips associated with it.
\<close>

definition in_stream :: "TClip \<Rightarrow> string option \<Rightarrow> bool" where
  "in_stream clip streamId =
     (case streamId of None \<Rightarrow> True
      | Some sid \<Rightarrow> if sid = [] then True else stream_entry clip sid \<noteq> None)"

definition log_effect :: "effect \<Rightarrow> HighlighterService \<Rightarrow> HighlighterService" where
  "log_effect e s = s\<lparr>effects := effects s @ [e]\<rparr>"

definition removeScrubFile :: "string option \<Rightarrow> HighlighterService \<Rightarrow> HighlighterService" where
  "removeScrubFile clipPath s =
     (case clipPath of None \<Rightarrow> s
      | Some p \<Rightarrow> if p = [] then s else log_effect (FsRemove p) s)"

text \<open>
  \<^verbatim>\<open>removeClip\<close> is asynchronous. It runs without a pause until its first
  \<^verbatim>\<open>await\<close> (the \<^verbatim>\<open>fs.unlink\<close>), which only the branch that drops
  the record with \<^verbatim>\<open>deleteClipFromSystem\<close> reaches; every other path runs to
  its end at once. \<open>detach_only\<close> is the test of the first branch and gives the
  \<^verbatim>\<open>updatedStreamInfo\<close> it stores. The existence of files is the parameter
  \<open>fileExists\<close> (\<^verbatim>\<open>file-utils\<close> is outside the sources at hand).
\<close>

definition detach_only ::
  "(string \<Rightarrow> bool) \<Rightarrow> string \<Rightarrow> string option \<Rightarrow> TClip \<Rightarrow> (string \<times> TStreamInfo) list option"
  where
  "detach_only fileExists removePath streamId clip =
     (case streamId of None \<Rightarrow> None
      | Some sid \<Rightarrow>
          (case streamInfo clip of None \<Rightarrow> None
           | Some si \<Rightarrow>
               if fileExists removePath \<and> sid \<noteq> [] \<and> 1 < length si
               then Some (AList.delete sid si) else None))"

datatype removal = NotFound | Proceed TClip | Suspended TClip

definition removeClip_begin ::
  "(string \<Rightarrow> bool) \<Rightarrow> string \<Rightarrow> string option \<Rightarrow> bool \<Rightarrow> HighlighterService
     \<Rightarrow> removal \<times> HighlighterService" where
  "removeClip_begin fileExists removePath streamId deleteClipFromSystem s =
     (case map_of (clips s) removePath of
        None \<Rightarrow> (NotFound, s)
      | Some clip \<Rightarrow>
          (case detach_only fileExists removePath streamId clip of
             Some updatedStreamInfo \<Rightarrow>
               (Proceed clip, UPDATE_CLIP (path clip) [StreamInfo updatedStreamInfo] s)
           | None \<Rightarrow>
               (let s1 = REMOVE_CLIP removePath s;
                    s2 = removeScrubFile (scrubSprite clip) s1;
                    s3 = s2\<lparr>renderingClips := removeAll removePath (renderingClips s2)\<rparr>
                in if deleteClipFromSystem
                   then (Suspended clip, log_effect (FsUnlink removePath) s3)
                   else (Proceed clip, s3))))"

text \<open>Lines 913 to 933: a stream that no clip is associated with any more is dropped.\<close>

definition prune_stream :: "HighlighterService \<Rightarrow> string \<Rightarrow> HighlighterService" where
  "prune_stream s sid =
     (if list_ex (\<lambda>c. stream_entry c sid \<noteq> None) (views_clips s) then s
      else REMOVE_HIGHLIGHTED_STREAM sid s)"

definition prune_streams :: "TClip \<Rightarrow> string option \<Rightarrow> HighlighterService \<Rightarrow> HighlighterService"
  where
  "prune_streams clip streamId s =
     (if streamInfo clip = None \<and> streamId = None then s
      else foldl prune_stream s
             (if truthy streamId then [the streamId]
              else (case streamInfo clip of None \<Rightarrow> [] | Some si \<Rightarrow> map fst si)))"

text \<open>What a caller that does not await \<^verbatim>\<open>removeClip\<close> has when the call returns.\<close>

definition removeClip_sync ::
  "(string \<Rightarrow> bool) \<Rightarrow> string \<Rightarrow> string option \<Rightarrow> bool \<Rightarrow> HighlighterService
     \<Rightarrow> HighlighterService" where
  "removeClip_sync fileExists removePath streamId deleteClipFromSystem s =
     (case removeClip_begin fileExists removePath streamId deleteClipFromSystem s of
        (NotFound, s') \<Rightarrow> s'
      | (Proceed clip, s') \<Rightarrow> prune_streams clip streamId s'
      | (Suspended clip, s') \<Rightarrow> s')"

text \<open>
  \<^verbatim>\<open>getClips\<close>: the filter over the given clips, with the removal of a clip
  whose file is gone as its side effect. The removal is not awaited.
\<close>

fun getClips ::
  "(string \<Rightarrow> bool) \<Rightarrow> TClip list \<Rightarrow> string option \<Rightarrow> HighlighterService
     \<Rightarrow> TClip list \<times> HighlighterService" where
  "getClips fileExists [] streamId s = ([], s)"
| "getClips fileExists (clip # rest) streamId s =
     (if path clip = ''add'' then getClips fileExists rest streamId s
      else if \<not> fileExists (path clip)
      then getClips fileExists rest streamId
             (removeClip_sync fileExists (path clip) streamId True s)
      else (case getClips fileExists rest streamId s of
              (kept, s') \<Rightarrow> (if in_stream clip streamId then clip # kept else kept, s')))"

text \<open>
  The rest of \<^verbatim>\<open>removeClip\<close> after the \<^verbatim>\<open>await fs.unlink\<close>, run
  with no other task in between. \<open>Unlinked empty\<close>: the \<^verbatim>\<open>try\<close> block went
  through, \<open>empty\<close> telling whether the folder was left empty; \<open>UnlinkThrew busy\<close>:
  a file system call threw, \<open>busy\<close> telling whether with \<^verbatim>\<open>EBUSY\<close>.
  \<open>fileExists'\<close> is the existence of files at that time.
\<close>

datatype unlink_outcome = Unlinked bool | UnlinkThrew bool

definition removeClip_resume ::
  "(string \<Rightarrow> bool) \<Rightarrow> unlink_outcome \<Rightarrow> string \<Rightarrow> string option \<Rightarrow> TClip
     \<Rightarrow> HighlighterService \<Rightarrow> HighlighterService" where
  "removeClip_resume fileExists' outcome removePath streamId clip s =
     prune_streams clip streamId
       (case outcome of
          Unlinked folderEmpty \<Rightarrow>
            (let s1 = (if folderEmpty then log_effect (FsRmdirOf removePath) s else s)
             in case getClips fileExists' (views_clips s1) streamId s1 of
                  (remaining, s2) \<Rightarrow>
                    if remaining = []
                    then log_effect (Navigate (if truthy streamId then STREAM else SETTINGS)) s2
                    else s2)
        | UnlinkThrew busy \<Rightarrow> if busy then log_effect ShowMessageBox s else s)"

definition removeClip ::
  "(string \<Rightarrow> bool) \<Rightarrow> (string \<Rightarrow> bool) \<Rightarrow> unlink_outcome \<Rightarrow> string \<Rightarrow> string option \<Rightarrow> bool
     \<Rightarrow> HighlighterService \<Rightarrow> HighlighterService" where
  "removeClip fileExists fileExists' outcome removePath streamId deleteClipFromSystem s =
     (case removeClip_begin fileExists removePath streamId deleteClipFromSystem s of
        (NotFound, s') \<Rightarrow> s'
      | (Proceed clip, s') \<Rightarrow> prune_streams clip streamId s'
      | (Suspended clip, s') \<Rightarrow> removeClip_resume fileExists' outcome removePath streamId clip s')"

subsection \<open>Adding clips\<close>

record INewClip =
  clip_path :: string
  startTime :: "rat option"
  endTime :: "rat option"

text \<open>The two bodies of \<^verbatim>\<open>forEach\<close> in the branch for manual clips.\<close>

definition bump_stream_position :: "string \<Rightarrow> HighlighterService \<Rightarrow> TClip \<Rightarrow> HighlighterService"
  where
  "bump_stream_position sid s clip =
     (case streamInfo clip of None \<Rightarrow> s
      | Some si \<Rightarrow>
          (case map_of si sid of None \<Rightarrow> s
           | Some info \<Rightarrow>
               UPDATE_CLIP (path clip)
                 [StreamInfo (AList.update sid (info\<lparr>orderPosition := orderPosition info + 1\<rparr>) si)]
                 s))"

definition bump_global_position :: "HighlighterService \<Rightarrow> TClip \<Rightarrow> HighlighterService" where
  "bump_global_position s clip =
     UPDATE_CLIP (path clip) [GlobalOrderPosition (globalOrderPosition clip + 1)] s"

text \<open>\<^verbatim>\<open>{...a, ...b}\<close> on dictionaries.\<close>

definition spread :: "('k \<times> 'v) list \<Rightarrow> ('k \<times> 'v) list \<Rightarrow> ('k \<times> 'v) list" where
  "spread a b = foldl (\<lambda>acc kv. AList.update (fst kv) (snd kv) acc) a b"

text \<open>
  One turn of \<^verbatim>\<open>newClips.forEach\<close> in \<^verbatim>\<open>addClips\<close>. The source is
  \<^verbatim>\<open>'Manual' | 'ReplayBuffer'\<close>.
\<close>

definition addClips_each ::
  "(string \<Rightarrow> bool) \<Rightarrow> string option \<Rightarrow> TSource \<Rightarrow> HighlighterService \<Rightarrow> nat \<times> INewClip
     \<Rightarrow> HighlighterService" where
  "addClips_each fileExists streamId src s ic =
     (let index = int (fst ic); clipData = snd ic in
      case getClips fileExists (views_clips s) streamId s of (currentClips, s1) \<Rightarrow>
      case getClips fileExists (views_clips s1) None s1 of (allClips, s2) \<Rightarrow>
      let getHighestGlobalOrderPosition = int (length allClips) in
      case (if src = Manual then
              (if truthy streamId
               then ([(the streamId,
                       \<lparr>orderPosition = 0 + index, initialStartTime = None,
                        initialEndTime = None\<rparr>)],
                     foldl bump_global_position
                       (foldl (bump_stream_position (the streamId)) s2 currentClips) allClips)
               else ([], foldl bump_global_position s2 currentClips))
            else
              (if truthy streamId
               then ([(the streamId,
                       \<lparr>orderPosition = index + int (length currentClips) + 1,
                        initialStartTime = startTime clipData,
                        initialEndTime = endTime clipData\<rparr>)], s2)
               else ([], s2)))
      of (newStreamInfo, s3) \<Rightarrow>
        (case map_of (clips s3) (clip_path clipData) of
           Some existing \<Rightarrow>
             UPDATE_CLIP (clip_path clipData)
               [StreamInfo (spread (case streamInfo existing of None \<Rightarrow> [] | Some si \<Rightarrow> si)
                              newStreamInfo)] s3
         | None \<Rightarrow>
             ADD_CLIP \<lparr>path = clip_path clipData, loaded = False, enabled = True,
               scrubSprite = None, startTrim = 0, endTrim = 0, duration = None, deleted = False,
               source = src,
               globalOrderPosition =
                 (if src = Manual then 0 + index else index + getHighestGlobalOrderPosition + 1),
               streamInfo = (if streamId = None then None else Some newStreamInfo),
               aiInfo = None\<rparr> s3))"

definition addClips ::
  "(string \<Rightarrow> bool) \<Rightarrow> INewClip list \<Rightarrow> string option \<Rightarrow> TSource \<Rightarrow> HighlighterService
     \<Rightarrow> HighlighterService" where
  "addClips fileExists newClips streamId src s =
     foldl (addClips_each fileExists streamId src) s (enumerate 0 newClips)"

text \<open>
  \<^verbatim>\<open>sortStreamClipsByStartTime\<close>. \<^verbatim>\<open>Array.prototype.sort\<close> is stable
  and the comparator is the difference of the keys
  \<^verbatim>\<open>initialStartTime || 0\<close>, so the result is the stable sort by that key.
\<close>

definition start_key :: "string \<Rightarrow> TClip \<Rightarrow> rat" where
  "start_key sid clip =
     (case stream_entry clip sid of None \<Rightarrow> 0
      | Some info \<Rightarrow> (case initialStartTime info of None \<Rightarrow> 0 | Some t \<Rightarrow> t))"

definition set_stream_position :: "string \<Rightarrow> HighlighterService \<Rightarrow> nat \<times> TClip \<Rightarrow> HighlighterService"
  where
  "set_stream_position sid s ic =
     UPDATE_CLIP (path (snd ic))
       [StreamInfo
          [(sid, (case stream_entry (snd ic) sid of
                    None \<Rightarrow> \<lparr>orderPosition = int (fst ic), initialStartTime = None,
                              initialEndTime = None\<rparr>
                  | Some info \<Rightarrow> info\<lparr>orderPosition := int (fst ic)\<rparr>))]] s"

definition sortStreamClipsByStartTime ::
  "(string \<Rightarrow> bool) \<Rightarrow> TClip list \<Rightarrow> string \<Rightarrow> HighlighterService \<Rightarrow> HighlighterService" where
  "sortStreamClipsByStartTime fileExists clips' sid s =
     (case getClips fileExists clips' (Some sid) s of
        (allClips, s1) \<Rightarrow>
          foldl (set_stream_position sid) s1 (enumerate 0 (sort_key (start_key sid) allClips)))"

text \<open>
  \<^verbatim>\<open>INewClipData\<close> is declared outside the sources at hand; these are the fields
  \<^verbatim>\<open>addAiClips\<close> reads.
\<close>

record INewClipData =
  new_path :: string
  aiClipInfo :: IAiClipInfo
  new_startTime :: rat
  new_endTime :: rat
  new_startTrim :: rat
  new_endTrim :: rat

definition addAiClips_each ::
  "string \<Rightarrow> int \<Rightarrow> int \<Rightarrow> HighlighterService \<Rightarrow> nat \<times> INewClipData \<Rightarrow> HighlighterService" where
  "addAiClips_each sid currentHighestOrderPosition getHighestGlobalOrderPosition s ic =
     (let index = int (fst ic); clip = snd ic in
      case map_of (clips s) (new_path clip) of
        Some existing \<Rightarrow> s
      | None \<Rightarrow>
          ADD_CLIP \<lparr>path = new_path clip, loaded = False, enabled = True, scrubSprite = None,
            startTrim = new_startTrim clip, endTrim = new_endTrim clip, duration = None,
            deleted = False, source = AiClip,
            globalOrderPosition =
              index + getHighestGlobalOrderPosition
                + (if getHighestGlobalOrderPosition = 0 then 0 else 1),
            streamInfo =
              Some [(sid,
                \<lparr>orderPosition =
                   index + currentHighestOrderPosition
                     + (if currentHighestOrderPosition = 0 then 0 else 1),
                 initialStartTime = Some (new_startTime clip),
                 initialEndTime = Some (new_endTime clip)\<rparr>)],
            aiInfo = Some (aiClipInfo clip)\<rparr> s)"

text \<open>
  \<^verbatim>\<open>addAiClips\<close> up to its first pause: the insertions, the reorder, and of
  \<^verbatim>\<open>loadClips\<close> the listing of the clips and the request for the scrub
  directory.
\<close>

definition addAiClips_sync ::
  "(string \<Rightarrow> bool) \<Rightarrow> INewClipData list \<Rightarrow> string \<Rightarrow> HighlighterService \<Rightarrow> HighlighterService"
  where
  "addAiClips_sync fileExists newClips sid s =
     (case getClips fileExists (views_clips s) (Some sid) s of (currentClips, s1) \<Rightarrow>
      case getClips fileExists (views_clips s1) None s1 of (allClips, s2) \<Rightarrow>
      let s3 = foldl (addAiClips_each sid (int (length currentClips)) (int (length allClips))) s2
                 (enumerate 0 newClips);
          s4 = sortStreamClipsByStartTime fileExists (views_clips s3) sid s3
      in case getClips fileExists (views_clips s4) (Some sid) s4 of
           (clipsToLoad, s5) \<Rightarrow> log_effect EnsureScrubDirectory s5)"

section \<open>Loading and exporting\<close>

text \<open>
  What the service asks of code outside the sources at hand, as parameters: whether a file
  exists when the clips are listed and after the pause that follows, whether a path has one of
  \<^verbatim>\<open>SUPPORTED_FILE_TYPES\<close>, what \<^verbatim>\<open>RenderingClip.init\<close> finds
  (\<open>None\<close>: it rejects, and with it \<^verbatim>\<open>pmap\<close> and the caller), what
  \<^verbatim>\<open>addVerticalFilterToExportOptions\<close> makes of the options, and whether
  \<^verbatim>\<open>RenderingClip.reset\<close> leaves a clip flagged deleted.
\<close>

record probe =
  probe_scrubJpg :: "string option"
  probe_duration :: "rat option"
  probe_deleted :: bool

record IExportOptions =
  width :: int
  height :: int
  options_fps :: int
  options_preset :: string

record collaborators =
  fileExists :: "string \<Rightarrow> bool"
  fileExists_later :: "string \<Rightarrow> bool"
  supported :: "string \<Rightarrow> bool"
  init :: "string \<Rightarrow> probe option"
  verticalFilter :: "IExportOptions \<Rightarrow> IExportOptions"
  reset_deleted :: "string \<Rightarrow> bool"

datatype fault = Thrown string

text \<open>
  The \<^verbatim>\<open>for\<close> loop of \<^verbatim>\<open>loadClips\<close>; the flag is false when the
  loop left the function by its \<^verbatim>\<open>return\<close>.
\<close>

fun prepare_clips ::
  "collaborators \<Rightarrow> string option \<Rightarrow> TClip list \<Rightarrow> HighlighterService
     \<Rightarrow> bool \<times> HighlighterService" where
  "prepare_clips env streamInfoId [] s = (True, s)"
| "prepare_clips env streamInfoId (clip # rest) s =
     (if \<not> fileExists_later env (path clip)
      then (False, removeClip_sync (fileExists_later env) (path clip) streamInfoId True s)
      else
        (let s1 = (if supported env (path clip) then s
                   else SET_ERROR ''One or more clips could not be imported because they were not recorded in a supported file format.''
                          (removeClip_sync (fileExists_later env) (path clip) streamInfoId True s));
             s2 = s1\<lparr>renderingClips :=
                       (if path clip \<in> set (renderingClips s1) then renderingClips s1
                        else renderingClips s1 @ [path clip])\<rparr>
         in prepare_clips env streamInfoId rest s2))"

text \<open>
  One unit of the \<^verbatim>\<open>pmap\<close> with its \<^verbatim>\<open>onProgress\<close>; the units are
  taken in the order of the list.
\<close>

definition hydrate ::
  "collaborators \<Rightarrow> fault + HighlighterService \<Rightarrow> TClip \<Rightarrow> fault + HighlighterService" where
  "hydrate env acc c =
     (case acc of Inl e \<Rightarrow> Inl e
      | Inr s \<Rightarrow>
          (case init env (path c) of
             None \<Rightarrow> Inl (Thrown ''init'')
           | Some r \<Rightarrow>
               Inr (UPDATE_CLIP (path c)
                      [Loaded True, ScrubSprite (probe_scrubJpg r), Duration (probe_duration r),
                       Deleted (probe_deleted r)] s)))"

definition loadClips ::
  "collaborators \<Rightarrow> string option \<Rightarrow> HighlighterService \<Rightarrow> fault + HighlighterService" where
  "loadClips env streamInfoId s =
     (case getClips (fileExists env) (views_clips s) streamInfoId s of
        (clipsToLoad, s1) \<Rightarrow>
          (case prepare_clips env streamInfoId clipsToLoad (log_effect EnsureScrubDirectory s1) of
             (finished, s2) \<Rightarrow>
               if finished
               then foldl (hydrate env) (Inr s2) (filter (\<lambda>c. \<not> loaded c) clipsToLoad)
               else Inr s2))"

definition hasUnloadedClips :: "string option \<Rightarrow> HighlighterService \<Rightarrow> bool" where
  "hasUnloadedClips streamId s =
     (\<not> list_all loaded (filter (\<lambda>c. enabled c \<and> in_stream c streamId) (views_clips s)))"

definition resetRenderingClips :: "HighlighterService \<Rightarrow> HighlighterService" where
  "resetRenderingClips s = s\<lparr>renderingClips := []\<rparr>"

datatype EOrientation = HORIZONTAL | VERTICAL

definition generateExportOptions ::
  "collaborators \<Rightarrow> bool \<Rightarrow> EOrientation \<Rightarrow> HighlighterService \<Rightarrow> IExportOptions" where
  "generateExportOptions env preview orientation s =
     (let exportOptions =
            (if preview
             then \<lparr>width = 1280 div 4, height = 720 div 4, options_fps = 30,
                   options_preset = ''ultrafast''\<rparr>
             else \<lparr>width = (if resolution (exportInfo s) = 720 then 1280 else 1920),
                   height = (if resolution (exportInfo s) = 720 then 720 else 1080),
                   options_fps = fps (exportInfo s),
                   options_preset = preset (exportInfo s)\<rparr>)
      in if orientation = VERTICAL then verticalFilter env exportOptions else exportOptions)"

text \<open>
  A \<^verbatim>\<open>RenderingClip\<close> as the export uses it: its source path and the trims copied
  from the clip. Looking up a path that has no \<^verbatim>\<open>RenderingClip\<close> gives
  \<^verbatim>\<open>undefined\<close>, and the assignment to its \<^verbatim>\<open>startTrim\<close> throws.
\<close>

record RenderingClip =
  sourcePath :: string
  rendering_startTrim :: rat
  rendering_endTrim :: rat

definition to_rendering :: "HighlighterService \<Rightarrow> TClip list \<Rightarrow> fault + RenderingClip list" where
  "to_rendering s cs =
     (if list_all (\<lambda>c. path c \<in> set (renderingClips s)) cs
      then Inr (map (\<lambda>c. \<lparr>sourcePath = path c, rendering_startTrim = startTrim c,
                           rendering_endTrim = endTrim c\<rparr>) cs)
      else Inl (Thrown ''TypeError''))"

definition stream_position :: "string \<Rightarrow> TClip \<Rightarrow> int" where
  "stream_position sid c = (case stream_entry c sid of None \<Rightarrow> 0 | Some info \<Rightarrow> orderPosition info)"

definition add_intro_outro ::
  "collaborators \<Rightarrow> EOrientation \<Rightarrow> HighlighterService \<Rightarrow> RenderingClip list
     \<Rightarrow> fault + RenderingClip list" where
  "add_intro_outro env orientation s rcs =
     (let introPath = video_path (intro (video s)); outroPath = video_path (outro (video s));
          withIntro =
            (if introPath \<noteq> [] \<and> orientation \<noteq> VERTICAL
             then (case init env introPath of None \<Rightarrow> Inl (Thrown ''init'')
                   | Some r \<Rightarrow> Inr (\<lparr>sourcePath = introPath, rendering_startTrim = 0,
                                     rendering_endTrim = 0\<rparr> # rcs))
             else Inr rcs)
      in case withIntro of Inl e \<Rightarrow> Inl e
         | Inr rcs1 \<Rightarrow>
             if outroPath \<noteq> [] \<and> orientation \<noteq> VERTICAL
             then (case init env outroPath of None \<Rightarrow> Inl (Thrown ''init'')
                   | Some r \<Rightarrow> Inr (rcs1 @ [\<lparr>sourcePath = outroPath, rendering_startTrim = 0,
                                             rendering_endTrim = 0\<rparr>]))
             else Inr rcs1)"

definition generateRenderingClips ::
  "collaborators \<Rightarrow> string option \<Rightarrow> EOrientation \<Rightarrow> HighlighterService
     \<Rightarrow> fault + (RenderingClip list \<times> HighlighterService)" where
  "generateRenderingClips env streamId orientation s =
     (case (if truthy streamId
            then (case getClips (fileExists_later env) (views_clips s) streamId s of
                    (cs, s1) \<Rightarrow>
                      (sort_key (stream_position (the streamId))
                         (filter (\<lambda>c. enabled c \<and> stream_entry c (the streamId) \<noteq> None) cs), s1))
            else (sort_key globalOrderPosition (filter enabled (views_clips s)), s))
      of (chosen, s1) \<Rightarrow>
        (case to_rendering s1 chosen of Inl e \<Rightarrow> Inl e
         | Inr rcs \<Rightarrow>
             (case add_intro_outro env orientation s1 rcs of Inl e \<Rightarrow> Inl e
              | Inr rcs' \<Rightarrow> Inr (rcs', s1))))"

definition flag_deleted :: "collaborators \<Rightarrow> HighlighterService \<Rightarrow> RenderingClip \<Rightarrow> HighlighterService"
  where
  "flag_deleted env s c =
     (if reset_deleted env (sourcePath c) then UPDATE_CLIP (sourcePath c) [Deleted True] s else s)"

text \<open>
  \<^verbatim>\<open>export\<close>, with no other task between its steps. \<open>Inl\<close>: the returned
  promise rejects. A job handed to \<^verbatim>\<open>startRendering\<close> is a
  \<open>StartRendering\<close> request in the log.
\<close>

definition export ::
  "collaborators \<Rightarrow> bool \<Rightarrow> string option \<Rightarrow> EOrientation \<Rightarrow> HighlighterService
     \<Rightarrow> fault + HighlighterService" where
  "export env preview streamId orientation s =
     (case loadClips env streamId (resetRenderingClips s) of
        Inl e \<Rightarrow> Inl e
      | Inr s1 \<Rightarrow>
          if hasUnloadedClips streamId s1 then Inr s1
          else if exporting (exportInfo s1) then Inr s1
          else
            (let s2 = SET_EXPORT_INFO [Exporting True, CurrentFrame 0, Step AudioMix,
                                       CancelRequested False, Error None] s1
             in case generateRenderingClips env streamId orientation s2 of
                  Inl e \<Rightarrow> Inl e
                | Inr (renderingClips', s3) \<Rightarrow>
                    (let exportOptions = generateExportOptions env preview orientation s3;
                         s4 = foldl (flag_deleted env) s3 renderingClips';
                         remaining =
                           filter (\<lambda>c. \<not> reset_deleted env (sourcePath c)) renderingClips'
                     in if remaining = []
                        then Inr (SET_EXPORT_INFO
                                    [Exporting False, Exported False,
                                     Error (Some ''Please select at least one clip to export a video'')]
                                    s4)
                        else Inr (log_effect
                                    (StartRendering
                                       \<lparr>job_isPreview = preview,
                                        job_renderingClips = map sourcePath remaining,
                                        job_width = width exportOptions,
                                        job_height = height exportOptions,
                                        job_fps = options_fps exportOptions,
                                        job_preset = options_preset exportOptions,
                                        job_streamId = streamId\<rparr>) s4))))"

definition is_render_job :: "effect \<Rightarrow> bool" where
  "is_render_job e = (case e of StartRendering job \<Rightarrow> True | _ \<Rightarrow> False)"

section \<open>Detection: the callback for incremental results\<close>

definition updateStream :: "IHighlightedStream \<Rightarrow> HighlighterService \<Rightarrow> HighlighterService" where
  "updateStream streamInfo' s = UPDATE_HIGHLIGHTED_STREAM streamInfo' s"

text \<open>
  \<^verbatim>\<open>renderHighlights\<close> inside \<^verbatim>\<open>detectAndClipAiHighlights\<close>:
  the states of the service after each of its statements that changes it, in order.
  \<open>setStreamInfo\<close> is the stream record the detection keeps, \<open>sid\<close> is
  \<^verbatim>\<open>streamInfo.id\<close>, \<open>clipData\<close> is what
  \<^verbatim>\<open>cutHighlightClips\<close> resolved to. The call of \<^verbatim>\<open>addAiClips\<close>
  is not awaited: the last state is the one at its first pause.
\<close>

definition renderHighlights ::
  "(string \<Rightarrow> bool) \<Rightarrow> IHighlightedStream \<Rightarrow> string \<Rightarrow> INewClipData list \<Rightarrow> HighlighterService
     \<Rightarrow> HighlighterService list" where
  "renderHighlights fileExists' setStreamInfo sid clipData s =
     (let s1 = updateStream setStreamInfo s;
          s2 = updateStream (setStreamInfo\<lparr>state_type := FINISHED\<rparr>) s1;
          s3 = addAiClips_sync fileExists' clipData sid s2
      in [s1, s2, s3])"

definition stream_state :: "string \<Rightarrow> HighlighterService \<Rightarrow> EAiDetectionState option" where
  "stream_state sid s = map_option state_type (map_of (highlightedStreamsDictionary s) sid)"

definition clip_paths :: "HighlighterService \<Rightarrow> string set" where
  "clip_paths s = fst ` set (clips s)"

section \<open>Uploads\<close>

text \<open>
  The two entry points up to their first pause. \<open>youtubeLinked\<close> is
  \<^verbatim>\<open>userService.state.auth?.platforms.youtube\<close>.
\<close>

definition uploadYoutube_start :: "bool \<Rightarrow> HighlighterService \<Rightarrow> fault + HighlighterService" where
  "uploadYoutube_start youtubeLinked s =
     (if \<not> youtubeLinked then Inl (Thrown ''Cannot upload without YT linked'')
      else if \<not> exported (exportInfo s)
      then Inl (Thrown ''Cannot upload when export is not complete'')
      else if list_ex uploading (uploads s)
      then Inl (Thrown ''Cannot start a new upload when uploading is in progress'')
      else Inr (SET_UPLOAD_INFO YOUTUBE
                  [Uploading True, UploadCancelRequested False, UploadError False] s))"

definition uploadStorage_start :: "EUploadPlatform \<Rightarrow> HighlighterService \<Rightarrow> fault + HighlighterService"
  where
  "uploadStorage_start platform' s =
     Inr (SET_UPLOAD_INFO platform'
            [Uploading True, UploadCancelRequested False, UploadError False] s)"

text \<open>The end of an upload: \<open>Some id\<close> when the transfer completed, \<open>None\<close> when it failed.\<close>

definition uploadYoutube_finish :: "string option \<Rightarrow> HighlighterService \<Rightarrow> HighlighterService" where
  "uploadYoutube_finish result s =
     SET_UPLOAD_INFO YOUTUBE [Uploading False, UploadCancelRequested False, VideoId result]
       (if result = None \<and> \<not> list_ex upload_cancelRequested (uploads s)
        then SET_UPLOAD_INFO YOUTUBE [UploadError True] s else s)"

definition uploadStorage_finish ::
  "EUploadPlatform \<Rightarrow> string option \<Rightarrow> HighlighterService \<Rightarrow> HighlighterService" where
  "uploadStorage_finish platform' result s =
     SET_UPLOAD_INFO platform'
       [Uploading False, UploadCancelRequested False,
        VideoId (case result of None \<Rightarrow> None | Some i \<Rightarrow> if i = [] then None else Some i)]
       (if result = None \<and> \<not> list_ex upload_cancelRequested (uploads s)
        then SET_UPLOAD_INFO platform' [Uploading False, UploadError True] s else s)"

section \<open>Notions used in the statements\<close>

text \<open>
  The paths that a call of \<^verbatim>\<open>getClips\<close> on the given clips finds without a
  file.
\<close>

definition gone :: "(string \<Rightarrow> bool) \<Rightarrow> TClip list \<Rightarrow> string set" where
  "gone fe cs = {p. \<exists>c \<in> set cs. path c = p \<and> p \<noteq> ''add'' \<and> \<not> fe p}"

text \<open>A ledger is keyed by path: every record is stored under its own path.\<close>

definition keyed_by_path :: "HighlighterService \<Rightarrow> bool" where
  "keyed_by_path s = list_all (\<lambda>kv. path (snd kv) = fst kv) (clips s)"

text \<open>The positions of the clips, in the order of the ledger.\<close>

definition global_positions :: "HighlighterService \<Rightarrow> (string \<times> int) list" where
  "global_positions s = map (\<lambda>c. (path c, globalOrderPosition c)) (views_clips s)"

definition stream_positions :: "string \<Rightarrow> HighlighterService \<Rightarrow> (string \<times> int option) list" where
  "stream_positions sid s =
     map (\<lambda>c. (path c, map_option orderPosition (stream_entry c sid))) (views_clips s)"

text \<open>
  The clips of a stream by ascending start time, each with its position in the stream.
\<close>

definition by_start_time :: "string \<Rightarrow> HighlighterService \<Rightarrow> (rat option \<times> int option) list" where
  "by_start_time sid s =
     sort_key (\<lambda>x. case fst x of None \<Rightarrow> 0 | Some t \<Rightarrow> t)
       (map (\<lambda>c. (case stream_entry c sid of None \<Rightarrow> None | Some i \<Rightarrow> initialStartTime i,
                  map_option orderPosition (stream_entry c sid))) (views_clips s))"

text \<open>Order positions are dense when, sorted, they are \<open>0, 1, \<dots>, n - 1\<close>.\<close>

definition dense_positions :: "int list \<Rightarrow> bool" where
  "dense_positions ps = (sort ps = map int [0..<length ps])"

text \<open>The render jobs handed out so far, and what an export in progress shows of itself.\<close>

definition render_jobs :: "HighlighterService \<Rightarrow> effect list" where
  "render_jobs s = filter is_render_job (effects s)"

definition export_view :: "HighlighterService \<Rightarrow> bool \<times> effect list" where
  "export_view s = (exporting (exportInfo s), render_jobs s)"

section \<open>Concrete ledgers\<close>

text \<open>Inputs on which the definitions are evaluated below.\<close>

definition manual_clip :: "string \<Rightarrow> int \<Rightarrow> (string \<times> TStreamInfo) list option \<Rightarrow> TClip" where
  "manual_clip p n si = \<lparr>path = p, loaded = False, enabled = True, scrubSprite = None,
     startTrim = 0, endTrim = 0, duration = None, deleted = False, source = Manual,
     globalOrderPosition = n, streamInfo = si, aiInfo = None\<rparr>"

definition at_position :: "int \<Rightarrow> TStreamInfo" where
  "at_position n = \<lparr>orderPosition = n, initialStartTime = None, initialEndTime = None\<rparr>"

definition ledger_of :: "TClip list \<Rightarrow> HighlighterService" where
  "ledger_of cs = defaultState\<lparr>clips := map (\<lambda>c. (path c, c)) cs\<rparr>"

definition every_file :: "string \<Rightarrow> bool" where
  "every_file p = True"

definition no_file :: "string \<Rightarrow> bool" where
  "no_file p = False"

definition only_file :: "string \<Rightarrow> string \<Rightarrow> bool" where
  "only_file q p = (p = q)"

definition new_clip :: "string \<Rightarrow> INewClip" where
  "new_clip p = \<lparr>clip_path = p, startTime = None, endTime = None\<rparr>"

definition replay_clip :: "string \<Rightarrow> rat \<Rightarrow> INewClip" where
  "replay_clip p t = \<lparr>clip_path = p, startTime = Some t, endTime = Some (t + 20)\<rparr>"

definition ai_clip :: "string \<Rightarrow> rat \<Rightarrow> INewClipData" where
  "ai_clip p t = \<lparr>new_path = p,
     aiClipInfo = \<lparr>ai_inputs = [], ai_score = 0, ai_round = None\<rparr>,
     new_startTime = t, new_endTime = t + 5, new_startTrim = 0, new_endTrim = 0\<rparr>"

definition one_clip :: HighlighterService where
  "one_clip = ledger_of [manual_clip ''a.mp4'' 0 None]"

definition two_clips :: HighlighterService where
  "two_clips = ledger_of [manual_clip ''a.mp4'' 0 None, manual_clip ''b.mp4'' 1 None]"

definition placeholder_only :: HighlighterService where
  "placeholder_only = ledger_of [manual_clip ''add'' 0 None]"

definition shared_clip :: TClip where
  "shared_clip =
     (manual_clip ''a.mp4'' 0 (Some [(''S1'', at_position 0), (''S2'', at_position 0)]))
       \<lparr>scrubSprite := Some ''a.jpg''\<rparr>"

definition shared_ledger :: HighlighterService where
  "shared_ledger = (ledger_of [shared_clip])\<lparr>renderingClips := [''a.mp4'']\<rparr>"

definition in_two_streams :: HighlighterService where
  "in_two_streams =
     ledger_of [manual_clip ''a.mp4'' 0 (Some [(''S'', at_position 0), (''T'', at_position 0)])]"

definition replay_then_ai :: HighlighterService where
  "replay_then_ai =
     addAiClips_sync every_file [ai_clip ''c.mp4'' 2, ai_clip ''d.mp4'' 30] ''S''
       (addClips every_file [replay_clip ''b.mp4'' 15] (Some ''S'') ReplayBuffer
         (addClips every_file [replay_clip ''a.mp4'' 5] (Some ''S'') ReplayBuffer defaultState))"

definition detecting :: IHighlightedStream where
  "detecting = \<lparr>stream_id = ''S'', stream_title = ''awesome-stream'', stream_game = ''unset'',
     stream_date = ''2025-01-01'', stream_path = ''rec.mp4'', state_type = IN_PROGRESS,
     state_progress = 0, abortController = True\<rparr>"

definition detection_ledger :: HighlighterService where
  "detection_ledger = defaultState\<lparr>highlightedStreamsDictionary := [(''S'', detecting)]\<rparr>"

definition found_probe :: "string \<Rightarrow> probe option" where
  "found_probe p = Some \<lparr>probe_scrubJpg = Some (p @ ''.jpg''), probe_duration = Some 10,
     probe_deleted = False\<rparr>"

definition same_options :: "IExportOptions \<Rightarrow> IExportOptions" where
  "same_options x = x"

definition steady :: collaborators where
  "steady = \<lparr>fileExists = every_file, fileExists_later = every_file, supported = every_file,
     init = found_probe, verticalFilter = same_options, reset_deleted = no_file\<rparr>"

definition vanishing :: collaborators where
  "vanishing = steady\<lparr>fileExists_later := only_file ''b.mp4''\<rparr>"

definition exporting_one_clip :: HighlighterService where
  "exporting_one_clip = one_clip\<lparr>exportInfo := (exportInfo one_clip)\<lparr>exporting := True\<rparr>\<rparr>"

definition storage_busy :: HighlighterService where
  "storage_busy = defaultState\<lparr>uploads :=
     [\<lparr>platform = StoragePlatform ''crossclip'', uploading = True, uploadedBytes = 10,
       totalBytes = 100, upload_cancelRequested = True, videoId = None, upload_error = False\<rparr>],
     exportInfo := (exportInfo defaultState)\<lparr>exported := True\<rparr>\<rparr>"

definition with_placeholder :: HighlighterService where
  "with_placeholder =
     ledger_of [manual_clip ''a.mp4'' 0 None, manual_clip ''b.mp4'' 1 None, manual_clip ''add'' 2 None]"

definition no_probe :: "string \<Rightarrow> probe option" where
  "no_probe p = None"

definition rejecting :: collaborators where
  "rejecting = steady\<lparr>init := no_probe\<rparr>"

section \<open>Properties of the mutations\<close>

subsection \<open>What the removal of a clip whose file is gone does\<close>

lemma detach_only_absent: "\<not> fe p \<Longrightarrow> detach_only fe p sid c = None"
  by (simp add: detach_only_def split: option.splits)

lemma removeClip_sync_absent:
  assumes "\<not> fe p"
  shows "removeClip_sync fe p sid True s =
           (case map_of (clips s) p of None \<Rightarrow> s
            | Some clip \<Rightarrow>
                log_effect (FsUnlink p)
                  ((removeScrubFile (scrubSprite clip) (REMOVE_CLIP p s))
                     \<lparr>renderingClips :=
                        removeAll p (renderingClips (removeScrubFile (scrubSprite clip) (REMOVE_CLIP p s)))\<rparr>))"
  using assms
  by (simp add: removeClip_sync_def removeClip_begin_def detach_only_absent Let_def
      split: option.splits)

lemma removeScrubFile_fields [simp]:
  "clips (removeScrubFile x s) = clips s"
  "highlightedStreamsDictionary (removeScrubFile x s) = highlightedStreamsDictionary s"
  "exportInfo (removeScrubFile x s) = exportInfo s"
  "renderingClips (removeScrubFile x s) = renderingClips s"
  "uploads (removeScrubFile x s) = uploads s"
  by (simp_all add: removeScrubFile_def log_effect_def split: option.splits)

lemma log_effect_fields [simp]:
  "clips (log_effect e s) = clips s"
  "highlightedStreamsDictionary (log_effect e s) = highlightedStreamsDictionary s"
  "exportInfo (log_effect e s) = exportInfo s"
  "renderingClips (log_effect e s) = renderingClips s"
  "effects (log_effect e s) = effects s @ [e]"
  by (simp_all add: log_effect_def)

lemma REMOVE_CLIP_fields [simp]:
  "clips (REMOVE_CLIP p s) = AList.delete p (clips s)"
  "highlightedStreamsDictionary (REMOVE_CLIP p s) = highlightedStreamsDictionary s"
  "exporting (exportInfo (REMOVE_CLIP p s)) = exporting (exportInfo s)"
  "renderingClips (REMOVE_CLIP p s) = renderingClips s"
  "effects (REMOVE_CLIP p s) = effects s"
  by (simp_all add: REMOVE_CLIP_def)

lemma UPDATE_CLIP_fields [simp]:
  "highlightedStreamsDictionary (UPDATE_CLIP p u s) = highlightedStreamsDictionary s"
  "exporting (exportInfo (UPDATE_CLIP p u s)) = exporting (exportInfo s)"
  "renderingClips (UPDATE_CLIP p u s) = renderingClips s"
  "effects (UPDATE_CLIP p u s) = effects s"
  by (simp_all add: UPDATE_CLIP_def Let_def)

lemma ADD_CLIP_fields [simp]:
  "clips (ADD_CLIP c s) = AList.update (path c) c (clips s)"
  "highlightedStreamsDictionary (ADD_CLIP c s) = highlightedStreamsDictionary s"
  "exporting (exportInfo (ADD_CLIP c s)) = exporting (exportInfo s)"
  "renderingClips (ADD_CLIP c s) = renderingClips s"
  "effects (ADD_CLIP c s) = effects s"
  by (simp_all add: ADD_CLIP_def)

lemma clip_paths_UPDATE_CLIP [simp]: "clip_paths (UPDATE_CLIP p u s) = insert p (clip_paths s)"
  by (simp add: clip_paths_def UPDATE_CLIP_def Let_def dom_update)

lemma clip_paths_ADD_CLIP [simp]: "clip_paths (ADD_CLIP c s) = insert (path c) (clip_paths s)"
  by (simp add: clip_paths_def dom_update)

lemma removeClip_sync_absent_clips:
  "\<not> fe p \<Longrightarrow> clips (removeClip_sync fe p sid True s) = AList.delete p (clips s)"
  by (simp add: removeClip_sync_absent map_of_eq_None_iff split: option.splits)

lemma removeClip_sync_absent_streams:
  "\<not> fe p \<Longrightarrow> highlightedStreamsDictionary (removeClip_sync fe p sid True s) = highlightedStreamsDictionary s"
  by (simp add: removeClip_sync_absent split: option.splits)

lemma removeClip_sync_absent_renderingClips:
  "\<not> fe p \<Longrightarrow> set (renderingClips (removeClip_sync fe p sid True s)) \<subseteq> set (renderingClips s)"
  by (auto simp add: removeClip_sync_absent split: option.splits)

lemma removeClip_sync_absent_effects:
  "\<not> fe p \<Longrightarrow> set (effects s) \<subseteq> set (effects (removeClip_sync fe p sid True s))"
  by (auto simp add: removeClip_sync_absent removeScrubFile_def log_effect_def split: option.splits)

subsection \<open>getClips\<close>

lemma gone_simps [simp]:
  "gone fe [] = {}"
  "gone fe (c # cs) = (if path c \<noteq> ''add'' \<and> \<not> fe (path c) then insert (path c) (gone fe cs) else gone fe cs)"
  by (auto simp: gone_def)

lemma getClips_kept:
  "fst (getClips fe cs sid s) = filter (\<lambda>c. path c \<noteq> ''add'' \<and> fe (path c) \<and> in_stream c sid) cs"
  by (induction cs arbitrary: s) (simp_all add: split_beta)

lemma getClips_clips:
  "clips (snd (getClips fe cs sid s)) = filter (\<lambda>kv. fst kv \<notin> gone fe cs) (clips s)"
proof (induction cs arbitrary: s)
  case Nil
  then show ?case by simp
next
  case (Cons c cs)
  show ?case
  proof (cases "path c \<noteq> ''add'' \<and> \<not> fe (path c)")
    case True
    then have "clips (snd (getClips fe (c # cs) sid s)) =
        filter (\<lambda>kv. fst kv \<notin> gone fe cs) (AList.delete (path c) (clips s))"
      by (simp add: Cons.IH removeClip_sync_absent_clips)
    also have "\<dots> = filter (\<lambda>kv. fst kv \<notin> gone fe (c # cs)) (clips s)"
      using True by (auto simp add: AList.delete_eq intro: filter_cong)
    finally show ?thesis .
  next
    case False
    then show ?thesis by (auto simp add: Cons.IH split_beta)
  qed
qed

lemma getClips_streams:
  "highlightedStreamsDictionary (snd (getClips fe cs sid s)) = highlightedStreamsDictionary s"
  by (induction cs arbitrary: s) (simp_all add: removeClip_sync_absent_streams split_beta)

lemma getClips_renderingClips:
  "set (renderingClips (snd (getClips fe cs sid s))) \<subseteq> set (renderingClips s)"
proof (induction cs arbitrary: s)
  case Nil
  then show ?case by simp
next
  case (Cons c cs)
  show ?case
  proof (cases "path c \<noteq> ''add'' \<and> \<not> fe (path c)")
    case True
    with Cons.IH [of "removeClip_sync fe (path c) sid True s"]
      removeClip_sync_absent_renderingClips [of fe "path c" sid s]
    show ?thesis by auto
  next
    case False
    with Cons.IH [of s] show ?thesis by (auto simp add: split_beta)
  qed
qed

lemma getClips_effects:
  "set (effects s) \<subseteq> set (effects (snd (getClips fe cs sid s)))"
proof (induction cs arbitrary: s)
  case Nil
  then show ?case by simp
next
  case (Cons c cs)
  show ?case
  proof (cases "path c \<noteq> ''add'' \<and> \<not> fe (path c)")
    case True
    with Cons.IH [of "removeClip_sync fe (path c) sid True s"]
      removeClip_sync_absent_effects [of fe "path c" s sid]
    show ?thesis by auto
  next
    case False
    with Cons.IH [of s] show ?thesis by (auto simp add: split_beta)
  qed
qed

subsection \<open>Removing a clip\<close>

lemma prune_stream_fields [simp]:
  "clips (prune_stream s i) = clips s"
  "renderingClips (prune_stream s i) = renderingClips s"
  "effects (prune_stream s i) = effects s"
  "exportInfo (prune_stream s i) = exportInfo s"
  by (simp_all add: prune_stream_def REMOVE_HIGHLIGHTED_STREAM_def)

lemma foldl_prune_stream_fields [simp]:
  "clips (foldl prune_stream s ids) = clips s"
  "renderingClips (foldl prune_stream s ids) = renderingClips s"
  "effects (foldl prune_stream s ids) = effects s"
  "exportInfo (foldl prune_stream s ids) = exportInfo s"
  by (induction ids arbitrary: s) simp_all

lemma prune_streams_fields [simp]:
  "clips (prune_streams c sid s) = clips s"
  "renderingClips (prune_streams c sid s) = renderingClips s"
  "effects (prune_streams c sid s) = effects s"
  "exportInfo (prune_streams c sid s) = exportInfo s"
  by (simp_all add: prune_streams_def)

lemma clip_paths_getClips: "clip_paths (snd (getClips fe cs sid s)) \<subseteq> clip_paths s"
  by (auto simp add: clip_paths_def getClips_clips)

lemma removeClip_resume_keeps:
  "clip_paths (removeClip_resume fe' out p sid c s) \<subseteq> clip_paths s"
  "set (renderingClips (removeClip_resume fe' out p sid c s)) \<subseteq> set (renderingClips s)"
  "set (effects s) \<subseteq> set (effects (removeClip_resume fe' out p sid c s))"
proof -
  show "clip_paths (removeClip_resume fe' out p sid c s) \<subseteq> clip_paths s"
    using clip_paths_getClips [of fe' "views_clips s" sid s]
      clip_paths_getClips [of fe' "views_clips (log_effect (FsRmdirOf p) s)" sid "log_effect (FsRmdirOf p) s"]
    by (auto simp add: removeClip_resume_def clip_paths_def split_beta Let_def split: unlink_outcome.splits)
  show "set (renderingClips (removeClip_resume fe' out p sid c s)) \<subseteq> set (renderingClips s)"
    using getClips_renderingClips [of fe' "views_clips s" sid s]
      getClips_renderingClips [of fe' "views_clips (log_effect (FsRmdirOf p) s)" sid "log_effect (FsRmdirOf p) s"]
    by (auto simp add: removeClip_resume_def split_beta Let_def split: unlink_outcome.splits)
  show "set (effects s) \<subseteq> set (effects (removeClip_resume fe' out p sid c s))"
    using getClips_effects [of s fe' "views_clips s" sid]
      getClips_effects [of "log_effect (FsRmdirOf p) s" fe' "views_clips (log_effect (FsRmdirOf p) s)" sid]
    by (auto simp add: removeClip_resume_def split_beta Let_def split: unlink_outcome.splits)
qed

lemma removeClip_detach:
  assumes "map_of (clips s) p = Some clip" and "path clip = p"
    and "detach_only fe p sid clip = Some si'"
  shows "map_of (clips (removeClip fe fe' out p sid del s)) p = Some (clip\<lparr>streamInfo := Some si'\<rparr>)"
  using assms
  by (simp add: removeClip_def removeClip_begin_def UPDATE_CLIP_def Let_def update_conv')

lemma removeClip_full:
  assumes found: "map_of (clips s) p = Some clip"
    and full: "detach_only fe p sid clip = None"
  shows "p \<notin> clip_paths (removeClip fe fe' out p sid del s)"
    and "p \<notin> set (renderingClips (removeClip fe fe' out p sid del s))"
    and "scrubSprite clip = Some sp \<Longrightarrow> sp \<noteq> [] \<Longrightarrow>
           FsRemove sp \<in> set (effects (removeClip fe fe' out p sid del s))"
proof -
  let ?s2 = "removeScrubFile (scrubSprite clip) (REMOVE_CLIP p s)"
  let ?s3 = "?s2\<lparr>renderingClips := removeAll p (renderingClips ?s2)\<rparr>"
  have run: "removeClip fe fe' out p sid del s =
      (if del then removeClip_resume fe' out p sid clip (log_effect (FsUnlink p) ?s3)
       else prune_streams clip sid ?s3)"
    using found full by (simp add: removeClip_def removeClip_begin_def Let_def)
  have gone3: "p \<notin> clip_paths ?s3" "p \<notin> set (renderingClips ?s3)"
    by (simp_all add: clip_paths_def delete_notin_dom)
  show "p \<notin> clip_paths (removeClip fe fe' out p sid del s)"
    using gone3(1) removeClip_resume_keeps(1) [of fe' out p sid clip "log_effect (FsUnlink p) ?s3"]
    by (auto simp add: run clip_paths_def)
  show "p \<notin> set (renderingClips (removeClip fe fe' out p sid del s))"
    using gone3(2) removeClip_resume_keeps(2) [of fe' out p sid clip "log_effect (FsUnlink p) ?s3"]
    by (auto simp add: run)
  show "FsRemove sp \<in> set (effects (removeClip fe fe' out p sid del s))"
    if "scrubSprite clip = Some sp" "sp \<noteq> []"
  proof -
    from that have "FsRemove sp \<in> set (effects ?s3)"
      by (simp add: removeScrubFile_def log_effect_def)
    then show ?thesis
      using removeClip_resume_keeps(3) [of "log_effect (FsUnlink p) ?s3" fe' out p sid clip]
      by (auto simp add: run)
  qed
qed

lemma distinct_singleton_set:
  assumes "distinct xs" and "set xs = {b}"
  shows "xs = [b]"
proof (cases xs)
  case Nil
  with assms(2) show ?thesis by simp
next
  case (Cons x xs')
  with assms have xb: "x = b" and sub: "set xs' \<subseteq> {b}" and nin: "x \<notin> set xs'" by auto
  have "xs' = []" using sub nin xb by (cases xs') auto
  with Cons xb show ?thesis by simp
qed

lemma two_keys_delete:
  assumes "distinct (map fst si)" and "set (map fst si) = {A, B}" and "A \<noteq> B"
  shows "map fst (AList.delete A si) = [B]"
proof -
  have d: "distinct (removeAll A (map fst si))" using assms(1) by (simp add: distinct_removeAll)
  have s: "set (removeAll A (map fst si)) = {B}" using assms(2,3) by auto
  from distinct_singleton_set [OF d s] show ?thesis by (simp add: delete_keys)
qed

subsection \<open>The exported flag\<close>

lemma exported_foldl:
  "exported (foldl set_export_field e upd) = exported_after upd (exported e)"
  by (induction upd "exported e" arbitrary: e rule: exported_after.induct) simp_all

lemma commit_keeps_export_inputs:
  assumes "\<not> sets_exported m" and "exported (exportInfo (commit s m))"
  shows "exported (exportInfo s) \<and> export_inputs (commit s m) = export_inputs s"
  using assms
  by (cases m)
     (simp_all add: export_inputs_def ADD_CLIP_def UPDATE_CLIP_def REMOVE_CLIP_def
        SET_EXPORT_INFO_def SET_UPLOAD_INFO_def CLEAR_UPLOAD_def SET_TRANSITION_INFO_def
        SET_AUDIO_INFO_def SET_VIDEO_INFO_def DISMISS_TUTORIAL_def SET_ERROR_def
        SET_USE_AI_HIGHLIGHTER_def ADD_HIGHLIGHTED_STREAM_def UPDATE_HIGHLIGHTED_STREAM_def
        REMOVE_HIGHLIGHTED_STREAM_def SET_UPDATER_PROGRESS_def SET_UPDATER_STATE_def
        SET_HIGHLIGHTER_VERSION_def SET_TEMP_RECORDING_INFO_def Let_def
        exported_foldl raises_exported_def)

lemma run_keeps_export_inputs:
  "list_all (\<lambda>m. \<not> sets_exported m) suf \<Longrightarrow> exported (exportInfo (foldl commit s suf)) \<Longrightarrow>
     exported (exportInfo s) \<and> export_inputs (foldl commit s suf) = export_inputs s"
proof (induction suf rule: rev_induct)
  case Nil
  then show ?case by simp
next
  case (snoc m suf)
  from snoc.prems have nm: "\<not> sets_exported m" and ns: "list_all (\<lambda>m. \<not> sets_exported m) suf"
    by simp_all
  from snoc.prems have "exported (exportInfo (commit (foldl commit s suf) m))" by simp
  from commit_keeps_export_inputs [OF nm this]
  have 1: "exported (exportInfo (foldl commit s suf))"
    and 2: "export_inputs (commit (foldl commit s suf) m) = export_inputs (foldl commit s suf)"
    by simp_all
  from snoc.IH [OF ns 1] 2 show ?case by simp
qed

lemma detach_only_no_stream: "\<not> truthy sid \<Longrightarrow> detach_only fe p sid c = None"
  by (auto simp add: detach_only_def truthy_def split: option.splits)

lemma detach_only_last: "streamInfo c = Some [(A, info)] \<Longrightarrow> detach_only fe p sid c = None"
  by (simp add: detach_only_def split: option.splits)

lemma detach_only_two:
  assumes "fe p" and "A \<noteq> []" and "streamInfo c = Some si" and "distinct (map fst si)"
    and "set (map fst si) = {A, B}" and "A \<noteq> B"
  shows "detach_only fe p (Some A) c = Some (AList.delete A si)"
proof -
  from assms(4,5,6) have "card (set (map fst si)) = 2" by simp
  with assms(4) have "length si = 2" by (metis distinct_card length_map)
  with assms show ?thesis by (simp add: detach_only_def)
qed


subsection \<open>Ingesting the clips of a detection\<close>

lemma getClips_keeps_existing:
  "k \<in> clip_paths s \<Longrightarrow> fe k \<Longrightarrow> k \<in> clip_paths (snd (getClips fe cs sid s))"
  by (auto simp add: clip_paths_def getClips_clips gone_def)

lemma foldl_addAiClips_each_streams:
  "highlightedStreamsDictionary (foldl (addAiClips_each sid a b) s ics) = highlightedStreamsDictionary s"
  by (induction ics arbitrary: s) (simp_all add: addAiClips_each_def Let_def split: option.splits)

lemma addAiClips_each_paths:
  "clip_paths (addAiClips_each sid a b s ic) = insert (new_path (snd ic)) (clip_paths s)"
proof (cases "map_of (clips s) (new_path (snd ic))")
  case None
  then show ?thesis by (simp add: addAiClips_each_def Let_def)
next
  case (Some existing)
  then have "new_path (snd ic) \<in> clip_paths s"
    by (auto simp add: clip_paths_def dest: map_of_SomeD intro: rev_image_eqI)
  with Some show ?thesis by (auto simp add: addAiClips_each_def Let_def)
qed

lemma foldl_addAiClips_each_paths:
  "clip_paths (foldl (addAiClips_each sid a b) s ics) = clip_paths s \<union> (new_path \<circ> snd) ` set ics"
  by (induction ics arbitrary: s) (auto simp add: addAiClips_each_paths)

lemma foldl_set_stream_position_streams:
  "highlightedStreamsDictionary (foldl (set_stream_position sid) s ics) = highlightedStreamsDictionary s"
  by (induction ics arbitrary: s) (simp_all add: set_stream_position_def)

lemma foldl_set_stream_position_paths:
  "clip_paths s \<subseteq> clip_paths (foldl (set_stream_position sid) s ics)"
proof (induction ics arbitrary: s)
  case Nil
  then show ?case by simp
next
  case (Cons ic ics)
  from Cons.IH [of "set_stream_position sid s ic"] show ?case
    by (auto simp add: set_stream_position_def)
qed

lemma sortStreamClipsByStartTime_streams:
  "highlightedStreamsDictionary (sortStreamClipsByStartTime fe cs sid s) = highlightedStreamsDictionary s"
  by (simp add: sortStreamClipsByStartTime_def split_beta foldl_set_stream_position_streams
      getClips_streams)

lemma sortStreamClipsByStartTime_keeps_existing:
  assumes "k \<in> clip_paths s" and "fe k"
  shows "k \<in> clip_paths (sortStreamClipsByStartTime fe cs sid s)"
  using assms getClips_keeps_existing [where k = k and s = s and fe = fe and cs = cs and sid = "Some sid"]
    foldl_set_stream_position_paths [of "snd (getClips fe cs (Some sid) s)" sid]
  by (auto simp add: sortStreamClipsByStartTime_def split_beta)

lemma addAiClips_sync_streams:
  "highlightedStreamsDictionary (addAiClips_sync fe newClips sid s) = highlightedStreamsDictionary s"
  by (simp add: addAiClips_sync_def split_beta Let_def getClips_streams
      sortStreamClipsByStartTime_streams foldl_addAiClips_each_streams)

lemma addAiClips_sync_ingests:
  assumes c: "c \<in> set newClips" and ex: "fe (new_path c)"
  shows "new_path c \<in> clip_paths (addAiClips_sync fe newClips sid s)"
proof -
  let ?s1 = "snd (getClips fe (views_clips s) (Some sid) s)"
  let ?cur = "fst (getClips fe (views_clips s) (Some sid) s)"
  let ?s2 = "snd (getClips fe (views_clips ?s1) None ?s1)"
  let ?all = "fst (getClips fe (views_clips ?s1) None ?s1)"
  let ?s3 = "foldl (addAiClips_each sid (int (length ?cur)) (int (length ?all))) ?s2
               (enumerate 0 newClips)"
  let ?s4 = "sortStreamClipsByStartTime fe (views_clips ?s3) sid ?s3"
  let ?s5 = "snd (getClips fe (views_clips ?s4) (Some sid) ?s4)"
  have run: "addAiClips_sync fe newClips sid s = log_effect EnsureScrubDirectory ?s5"
    by (simp add: addAiClips_sync_def split_beta Let_def)
  have "snd ` set (enumerate 0 newClips) = set newClips"
    by (metis map_snd_enumerate set_map)
  with c have "c \<in> snd ` set (enumerate 0 newClips)" by simp
  then have "new_path c \<in> (new_path \<circ> snd) ` set (enumerate 0 newClips)" by auto
  then have 3: "new_path c \<in> clip_paths ?s3" by (simp add: foldl_addAiClips_each_paths)
  from 3 ex have 4: "new_path c \<in> clip_paths ?s4"
    by (rule sortStreamClipsByStartTime_keeps_existing)
  from 4 ex have "new_path c \<in> clip_paths ?s5"
    by (rule getClips_keeps_existing)
  then show ?thesis by (simp add: run clip_paths_def)
qed


subsection \<open>The load pass leaves the export alone\<close>

lemma export_view_simps [simp]:
  "export_view (REMOVE_CLIP p s) = export_view s"
  "export_view (UPDATE_CLIP p u s) = export_view s"
  "export_view (ADD_CLIP c s) = export_view s"
  "export_view (SET_ERROR msg s) = export_view s"
  "export_view (removeScrubFile x s) = export_view s"
  "export_view (prune_streams c sid s) = export_view s"
  "export_view (s\<lparr>renderingClips := r\<rparr>) = export_view s"
  "\<not> is_render_job e \<Longrightarrow> export_view (log_effect e s) = export_view s"
  by (simp_all add: export_view_def render_jobs_def SET_ERROR_def removeScrubFile_def
      log_effect_def is_render_job_def split: option.splits)

lemma export_view_removeClip_sync [simp]:
  "export_view (removeClip_sync fe p sid del s) = export_view s"
  by (simp add: removeClip_sync_def removeClip_begin_def Let_def is_render_job_def
      split: option.splits)

lemma export_view_getClips [simp]:
  "export_view (snd (getClips fe cs sid s)) = export_view s"
  by (induction cs arbitrary: s) (simp_all add: split_beta)

lemma export_view_prepare_clips [simp]:
  "export_view (snd (prepare_clips env sid cs s)) = export_view s"
  by (induction cs arbitrary: s) (simp_all add: Let_def)

lemma foldl_hydrate_Inl [simp]: "foldl (hydrate env) (Inl e) cs = Inl e"
  by (induction cs) (simp_all add: hydrate_def)

lemma export_view_hydrate:
  "foldl (hydrate env) (Inr s) cs = Inr s' \<Longrightarrow> export_view s' = export_view s"
proof (induction cs arbitrary: s)
  case Nil
  then show ?case by simp
next
  case (Cons c cs)
  from Cons.prems have run: "foldl (hydrate env) (hydrate env (Inr s) c) cs = Inr s'" by simp
  show ?case
  proof (cases "init env (path c)")
    case None
    then have "hydrate env (Inr s) c = Inl (Thrown ''init'')" by (simp add: hydrate_def)
    with run show ?thesis by simp
  next
    case (Some r)
    let ?s = "UPDATE_CLIP (path c)
        [Loaded True, ScrubSprite (probe_scrubJpg r), Duration (probe_duration r),
         Deleted (probe_deleted r)] s"
    from Some have "hydrate env (Inr s) c = Inr ?s" by (simp add: hydrate_def)
    with run have "foldl (hydrate env) (Inr ?s) cs = Inr s'" by simp
    from Cons.IH [OF this] show ?thesis by simp
  qed
qed

lemma export_view_loadClips:
  assumes "loadClips env sid s = Inr s'"
  shows "export_view s' = export_view s"
proof -
  let ?l = "getClips (fileExists env) (views_clips s) sid s"
  let ?p = "prepare_clips env sid (fst ?l) (log_effect EnsureScrubDirectory (snd ?l))"
  have base: "export_view (snd ?p) = export_view s"
    by (simp add: is_render_job_def)
  show ?thesis
  proof (cases "fst ?p")
    case True
    with assms have "foldl (hydrate env) (Inr (snd ?p)) (filter (\<lambda>c. \<not> loaded c) (fst ?l)) = Inr s'"
      by (simp add: loadClips_def split_beta)
    from export_view_hydrate [OF this] base show ?thesis by simp
  next
    case False
    with assms have "s' = snd ?p" by (simp add: loadClips_def split_beta)
    with base show ?thesis by simp
  qed
qed


subsection \<open>The model at work\<close>

lemma export_dispatches:
  "map_sum id (\<lambda>s. (exporting (exportInfo s), render_jobs s, map loaded (views_clips s)))
     (export steady False None HORIZONTAL one_clip)
   = Inr (True,
       [StartRendering \<lparr>job_isPreview = False, job_renderingClips = [''a.mp4''], job_width = 1920,
          job_height = 1080, job_fps = 30, job_preset = ''medium'', job_streamId = None\<rparr>],
       [True])"
  by code_simp


lemma addClips_manual_one_by_one:
  "global_positions (addClips every_file [new_clip ''b.mp4''] None Manual
      (addClips every_file [new_clip ''a.mp4''] None Manual defaultState))
     = [(''a.mp4'', 1), (''b.mp4'', 0)]"
  by code_simp


subsection \<open>The placeholder path\<close>

lemma map_of_filter_keys:
  "map_of (filter (\<lambda>kv. fst kv \<notin> G) al) k = (if k \<in> G then None else map_of al k)"
  by (induction al) auto

lemma add_not_gone: "''add'' \<notin> gone fe cs"
  by (simp add: gone_def)

lemma getClips_keeps_add_record:
  "map_of (clips (snd (getClips fe cs sid s))) ''add'' = map_of (clips s) ''add''"
  by (simp add: getClips_clips map_of_filter_keys add_not_gone)

subsection \<open>When the load pass resolves\<close>

lemma foldl_hydrate_resolves:
  "\<forall>p. init env p \<noteq> None \<Longrightarrow> \<exists>s'. foldl (hydrate env) (Inr s) cs = Inr s'"
proof (induction cs arbitrary: s)
  case Nil
  then show ?case by simp
next
  case (Cons c cs)
  from Cons.prems obtain r where r: "init env (path c) = Some r" by auto
  let ?s = "UPDATE_CLIP (path c)
      [Loaded True, ScrubSprite (probe_scrubJpg r), Duration (probe_duration r),
       Deleted (probe_deleted r)] s"
  from r have "hydrate env (Inr s) c = Inr ?s" by (simp add: hydrate_def)
  with Cons.IH [OF Cons.prems, of ?s] show ?case by simp
qed

lemma loadClips_resolves:
  assumes "\<forall>p. init env p \<noteq> None"
  shows "\<exists>s1. loadClips env sid s = Inr s1"
  using foldl_hydrate_resolves [OF assms]
  by (simp add: loadClips_def split_beta)

subsection \<open>The order by start time\<close>

text \<open>
  Two replay buffer clips starting at 5 and 15 are inserted under stream \<^verbatim>\<open>S\<close>,
  one call each or both in one call, then two AI clips starting at 2 and 30. After the reorder
  the four clips, taken by ascending start time 2, 5, 15, 30, have the positions 0, 1, 2, 3 in
  the stream.
\<close>

lemma scenario_final_positions:
  "by_start_time ''S'' replay_then_ai
     = [(Some 2, Some 0), (Some 5, Some 1), (Some 15, Some 2), (Some 30, Some 3)] \<and>
   by_start_time ''S''
     (addAiClips_sync every_file [ai_clip ''c.mp4'' 2, ai_clip ''d.mp4'' 30] ''S''
        (addClips every_file [replay_clip ''a.mp4'' 5, replay_clip ''b.mp4'' 15] (Some ''S'')
           ReplayBuffer defaultState))
     = [(Some 2, Some 0), (Some 5, Some 1), (Some 15, Some 2), (Some 30, Some 3)]"
  by code_simp

section \<open>The claims\<close>

text \<open>
  Claim C10. Each of the mutations \<^verbatim>\<open>ADD_CLIP\<close>, \<^verbatim>\<open>UPDATE_CLIP\<close>,
  \<^verbatim>\<open>REMOVE_CLIP\<close>, \<^verbatim>\<open>SET_TRANSITION_INFO\<close>,
  \<^verbatim>\<open>SET_AUDIO_INFO\<close> and \<^verbatim>\<open>SET_VIDEO_INFO\<close> leaves
  \<open>exported\<close> false. Hence, over any run of mutations: when \<open>exported\<close> is true at
  the end and no mutation of the last stretch \<open>suf\<close> is a \<^verbatim>\<open>SET_EXPORT_INFO\<close>
  carrying \<^verbatim>\<open>exported: true\<close>, the flag was already true before that stretch and
  the clip set and the transition, audio and video settings are what they were then.
\<close>

theorem exported_reset:
  "\<not> exported (exportInfo (ADD_CLIP c s)) \<and>
   \<not> exported (exportInfo (UPDATE_CLIP p cu s)) \<and>
   \<not> exported (exportInfo (REMOVE_CLIP p s)) \<and>
   \<not> exported (exportInfo (SET_TRANSITION_INFO tu s)) \<and>
   \<not> exported (exportInfo (SET_AUDIO_INFO au s)) \<and>
   \<not> exported (exportInfo (SET_VIDEO_INFO vu s)) \<and>
   (list_all (\<lambda>m. \<not> sets_exported m) suf \<and> exported (exportInfo (foldl commit s (pre @ suf)))
      \<longrightarrow> exported (exportInfo (foldl commit s pre)) \<and>
          export_inputs (foldl commit s (pre @ suf)) = export_inputs (foldl commit s pre))"
  using run_keeps_export_inputs [of suf "foldl commit s pre"]
  by (simp add: ADD_CLIP_def UPDATE_CLIP_def REMOVE_CLIP_def SET_TRANSITION_INFO_def
        SET_AUDIO_INFO_def SET_VIDEO_INFO_def Let_def)

text \<open>
  Claim C10 on a run: a clip is added, the export completes, then an error text and an upload
  record change; the flag stays raised and the inputs of the export are untouched.
\<close>

theorem exported_reset_witness:
  "list_all (\<lambda>m. \<not> sets_exported m) [M_SET_ERROR ''x'', M_SET_UPLOAD_INFO YOUTUBE [Uploading True]] \<and>
   exported (exportInfo (foldl commit defaultState
      ([M_ADD_CLIP (manual_clip ''a.mp4'' 0 None), M_SET_EXPORT_INFO [Exporting False, Exported True]]
        @ [M_SET_ERROR ''x'', M_SET_UPLOAD_INFO YOUTUBE [Uploading True]]))) \<and>
   exported (exportInfo (foldl commit defaultState
      [M_ADD_CLIP (manual_clip ''a.mp4'' 0 None), M_SET_EXPORT_INFO [Exporting False, Exported True]])) \<and>
   export_inputs (foldl commit defaultState
      ([M_ADD_CLIP (manual_clip ''a.mp4'' 0 None), M_SET_EXPORT_INFO [Exporting False, Exported True]]
        @ [M_SET_ERROR ''x'', M_SET_UPLOAD_INFO YOUTUBE [Uploading True]])) =
   export_inputs (foldl commit defaultState
      [M_ADD_CLIP (manual_clip ''a.mp4'' 0 None), M_SET_EXPORT_INFO [Exporting False, Exported True]])"
proof -
  have h1: "list_all (\<lambda>m. \<not> sets_exported m) [M_SET_ERROR ''x'', M_SET_UPLOAD_INFO YOUTUBE [Uploading True]]"
    by simp
  have h2: "exported (exportInfo (foldl commit defaultState
      ([M_ADD_CLIP (manual_clip ''a.mp4'' 0 None), M_SET_EXPORT_INFO [Exporting False, Exported True]]
        @ [M_SET_ERROR ''x'', M_SET_UPLOAD_INFO YOUTUBE [Uploading True]])))"
    by code_simp
  from h1 h2 exported_reset [where suf = "[M_SET_ERROR ''x'', M_SET_UPLOAD_INFO YOUTUBE [Uploading True]]"
      and s = defaultState
      and pre = "[M_ADD_CLIP (manual_clip ''a.mp4'' 0 None), M_SET_EXPORT_INFO [Exporting False, Exported True]]"]
  show ?thesis by blast
qed

text \<open>
  Claim C7, amended. For every ledger and every optional stream id, \<^verbatim>\<open>getClips\<close>
  on the clips of the ledger returns only clips whose file exists, and when it returns every clip
  whose file does not exist and whose path is not the placeholder \<^verbatim>\<open>'add'\<close> is
  gone from the state: no record is left under its path, and in a ledger keyed by path the
  record itself is no longer listed. A record under the path \<^verbatim>\<open>'add'\<close> is
  never returned and never removed: what the ledger holds under that path is what it held
  before, and in a ledger keyed by path such a record is still listed.
\<close>

theorem getClips_self_healing:
  assumes run: "getClips fileExists' (views_clips s) streamId s = (kept, s')"
  shows "list_all (\<lambda>c. fileExists' (path c) \<and> path c \<noteq> ''add'') kept \<and>
         (\<forall>c \<in> set (views_clips s). \<not> fileExists' (path c) \<and> path c \<noteq> ''add'' \<longrightarrow>
            path c \<notin> clip_paths s' \<and> (keyed_by_path s \<longrightarrow> c \<notin> set (views_clips s'))) \<and>
         map_of (clips s') ''add'' = map_of (clips s) ''add'' \<and>
         (\<forall>c \<in> set (views_clips s). path c = ''add'' \<and> keyed_by_path s \<longrightarrow>
            c \<in> set (views_clips s'))"
proof -
  from run have kept: "kept = fst (getClips fileExists' (views_clips s) streamId s)"
    and s': "s' = snd (getClips fileExists' (views_clips s) streamId s)" by simp_all
  have 1: "list_all (\<lambda>c. fileExists' (path c) \<and> path c \<noteq> ''add'') kept"
    by (simp add: kept getClips_kept list_all_iff)
  have 2: "path c \<notin> clip_paths s' \<and> (keyed_by_path s \<longrightarrow> c \<notin> set (views_clips s'))"
    if c: "c \<in> set (views_clips s)" and missing: "\<not> fileExists' (path c)" "path c \<noteq> ''add''" for c
  proof -
    from c missing have g: "path c \<in> gone fileExists' (views_clips s)"
      by (auto simp add: gone_def)
    then have a: "path c \<notin> clip_paths s'"
      by (auto simp add: clip_paths_def s' getClips_clips)
    have b: "c \<notin> set (views_clips s')" if wf: "keyed_by_path s"
    proof
      assume "c \<in> set (views_clips s')"
      then obtain k where k: "(k, c) \<in> set (clips s)" "k \<notin> gone fileExists' (views_clips s)"
        by (auto simp add: views_clips_def s' getClips_clips)
      from wf k(1) have "path c = k" by (auto simp add: keyed_by_path_def list_all_iff)
      with g k(2) show False by simp
    qed
    from a b show ?thesis by blast
  qed
  have 3: "map_of (clips s') ''add'' = map_of (clips s) ''add''"
    by (simp add: s' getClips_keeps_add_record)
  have 4: "c \<in> set (views_clips s')"
    if c: "c \<in> set (views_clips s)" and add: "path c = ''add''" and wf: "keyed_by_path s" for c
  proof -
    from c obtain k where k: "(k, c) \<in> set (clips s)" by (auto simp add: views_clips_def)
    with wf add have "k = ''add''" by (auto simp add: keyed_by_path_def list_all_iff)
    with k have "(k, c) \<in> set (clips s')"
      by (simp add: s' getClips_clips add_not_gone)
    then show ?thesis by (force simp add: views_clips_def)
  qed
  from 1 2 3 4 show ?thesis by blast
qed

text \<open>
  Claim C7 on a ledger of three clips, \<^verbatim>\<open>a.mp4\<close>, \<^verbatim>\<open>b.mp4\<close>
  and \<^verbatim>\<open>add\<close>, of which only \<^verbatim>\<open>a.mp4\<close> has a file.
\<close>

theorem getClips_self_healing_witness:
  "list_all (\<lambda>c. only_file ''a.mp4'' (path c) \<and> path c \<noteq> ''add'')
      (fst (getClips (only_file ''a.mp4'') (views_clips with_placeholder) None with_placeholder)) \<and>
   ''b.mp4'' \<notin> clip_paths
      (snd (getClips (only_file ''a.mp4'') (views_clips with_placeholder) None with_placeholder)) \<and>
   manual_clip ''b.mp4'' 1 None \<notin> set (views_clips
      (snd (getClips (only_file ''a.mp4'') (views_clips with_placeholder) None with_placeholder))) \<and>
   map_of (clips (snd (getClips (only_file ''a.mp4'') (views_clips with_placeholder) None
      with_placeholder))) ''add'' = Some (manual_clip ''add'' 2 None) \<and>
   manual_clip ''add'' 2 None \<in> set (views_clips
      (snd (getClips (only_file ''a.mp4'') (views_clips with_placeholder) None with_placeholder)))"
proof -
  let ?r = "getClips (only_file ''a.mp4'') (views_clips with_placeholder) None with_placeholder"
  have run: "?r = (fst ?r, snd ?r)" by simp
  have b: "manual_clip ''b.mp4'' 1 None \<in> set (views_clips with_placeholder)"
    by (simp add: with_placeholder_def ledger_of_def views_clips_def)
  have missing: "\<not> only_file ''a.mp4'' (path (manual_clip ''b.mp4'' 1 None))"
    "path (manual_clip ''b.mp4'' 1 None) \<noteq> ''add''"
    by (simp_all add: only_file_def manual_clip_def)
  have wf: "keyed_by_path with_placeholder"
    by (simp add: keyed_by_path_def with_placeholder_def ledger_of_def manual_clip_def)
  have p: "path (manual_clip ''b.mp4'' 1 None) = ''b.mp4''" by (simp add: manual_clip_def)
  have a: "manual_clip ''add'' 2 None \<in> set (views_clips with_placeholder)"
    "path (manual_clip ''add'' 2 None) = ''add''"
    by (simp_all add: with_placeholder_def ledger_of_def views_clips_def manual_clip_def)
  have before: "map_of (clips with_placeholder) ''add'' = Some (manual_clip ''add'' 2 None)"
    by (simp add: with_placeholder_def ledger_of_def manual_clip_def)
  from getClips_self_healing [OF run] b missing wf p a before show ?thesis by fastforce
qed

text \<open>
  Claim C7 as stated fails: \<^verbatim>\<open>getClips\<close> leaves at once on the path
  \<^verbatim>\<open>'add'\<close>, before it looks for the file. A record under that path whose file
  does not exist is not returned, and is still in the state afterwards.
\<close>

theorem getClips_keeps_add_placeholder:
  "\<not> no_file ''add'' \<and>
   map path (views_clips placeholder_only) = [''add''] \<and>
   map path (fst (getClips no_file (views_clips placeholder_only) None placeholder_only)) = [] \<and>
   map path (views_clips (snd (getClips no_file (views_clips placeholder_only) None placeholder_only)))
     = [''add'']"
  by code_simp

text \<open>
  Claim C6. Take a clip stored under its path \<open>p\<close>. When its file exists and it is
  associated with exactly the two streams \<open>A\<close> and \<open>B\<close>,
  \<^verbatim>\<open>removeClip(p, A)\<close> leaves the record in the ledger, unchanged but for its
  associations, which are now the one with \<open>B\<close> alone. When no stream id is given
  (the code takes the empty string for none), or the clip's only association is
  \<open>A\<close> and the stream id is \<open>A\<close>, the record is gone from the ledger, the clip has no
  \<^verbatim>\<open>RenderingClip\<close> any more, and the removal of its scrub sprite has been
  requested. This holds for the whole run of \<^verbatim>\<open>removeClip\<close>, whatever the
  file system answers.
\<close>

theorem removeClip_associations:
  assumes found: "map_of (clips s) p = Some clip" and keyed: "path clip = p"
  shows
    "(fileExists' p \<and> A \<noteq> [] \<and> A \<noteq> B \<and> streamInfo clip = Some si \<and> distinct (map fst si) \<and>
      set (map fst si) = {A, B} \<longrightarrow>
        map_of (clips (removeClip fileExists' later outcome p (Some A) del s)) p
          = Some (clip\<lparr>streamInfo := Some (AList.delete A si)\<rparr>) \<and>
        map fst (AList.delete A si) = [B] \<and> map_of (AList.delete A si) B = map_of si B) \<and>
     (\<not> truthy streamId \<or> (\<exists>info. streamInfo clip = Some [(A, info)] \<and> streamId = Some A) \<longrightarrow>
        p \<notin> clip_paths (removeClip fileExists' later outcome p streamId del s) \<and>
        p \<notin> set (renderingClips (removeClip fileExists' later outcome p streamId del s)) \<and>
        (\<forall>sp. scrubSprite clip = Some sp \<and> sp \<noteq> [] \<longrightarrow>
           FsRemove sp \<in> set (effects (removeClip fileExists' later outcome p streamId del s))))"
proof (intro conjI impI)
  assume h: "fileExists' p \<and> A \<noteq> [] \<and> A \<noteq> B \<and> streamInfo clip = Some si \<and>
      distinct (map fst si) \<and> set (map fst si) = {A, B}"
  then have d: "detach_only fileExists' p (Some A) clip = Some (AList.delete A si)"
    by (simp add: detach_only_two)
  from removeClip_detach [OF found keyed d]
  show "map_of (clips (removeClip fileExists' later outcome p (Some A) del s)) p
          = Some (clip\<lparr>streamInfo := Some (AList.delete A si)\<rparr>)" .
  from h show "map fst (AList.delete A si) = [B]" by (simp add: two_keys_delete)
  from h have "B \<noteq> A" by blast
  then show "map_of (AList.delete A si) B = map_of si B" by simp
next
  assume h: "\<not> truthy streamId \<or> (\<exists>info. streamInfo clip = Some [(A, info)] \<and> streamId = Some A)"
  then have d: "detach_only fileExists' p streamId clip = None"
    by (auto simp add: detach_only_no_stream detach_only_last)
  from removeClip_full(1) [OF found d]
  show "p \<notin> clip_paths (removeClip fileExists' later outcome p streamId del s)" .
  from removeClip_full(2) [OF found d]
  show "p \<notin> set (renderingClips (removeClip fileExists' later outcome p streamId del s))" .
  from removeClip_full(3) [OF found d]
  show "\<forall>sp. scrubSprite clip = Some sp \<and> sp \<noteq> [] \<longrightarrow>
           FsRemove sp \<in> set (effects (removeClip fileExists' later outcome p streamId del s))"
    by blast
qed

text \<open>
  Claim C6 on a clip that the streams \<^verbatim>\<open>S1\<close> and \<^verbatim>\<open>S2\<close> share:
  removed from \<^verbatim>\<open>S1\<close> it stays, with \<^verbatim>\<open>S2\<close> alone; removed with
  no stream id it is gone with its \<^verbatim>\<open>RenderingClip\<close> and its scrub sprite.
\<close>

theorem removeClip_associations_witness:
  "map_of (clips (removeClip every_file every_file (Unlinked False) ''a.mp4'' (Some ''S1'') True
             shared_ledger)) ''a.mp4''
     = Some (shared_clip\<lparr>streamInfo := Some [(''S2'', at_position 0)]\<rparr>) \<and>
   ''a.mp4'' \<notin> clip_paths (removeClip every_file every_file (Unlinked False) ''a.mp4'' None True
                  shared_ledger) \<and>
   ''a.mp4'' \<notin> set (renderingClips (removeClip every_file every_file (Unlinked False) ''a.mp4'' None
                        True shared_ledger)) \<and>
   FsRemove ''a.jpg'' \<in> set (effects (removeClip every_file every_file (Unlinked False) ''a.mp4'' None
                                    True shared_ledger))"
proof -
  have found: "map_of (clips shared_ledger) ''a.mp4'' = Some shared_clip"
    by (simp add: shared_ledger_def ledger_of_def shared_clip_def manual_clip_def)
  have keyed: "path shared_clip = ''a.mp4''"
    by (simp add: shared_clip_def manual_clip_def)
  have two: "every_file ''a.mp4'' \<and> ''S1'' \<noteq> [] \<and> ''S1'' \<noteq> ''S2'' \<and>
      streamInfo shared_clip = Some [(''S1'', at_position 0), (''S2'', at_position 0)] \<and>
      distinct (map fst [(''S1'', at_position 0), (''S2'', at_position 0)]) \<and>
      set (map fst [(''S1'', at_position 0), (''S2'', at_position 0)]) = {''S1'', ''S2''}"
    by (simp add: every_file_def shared_clip_def manual_clip_def)
  have none: "\<not> truthy None" by (simp add: truthy_def)
  have sprite: "scrubSprite shared_clip = Some ''a.jpg'' \<and> ''a.jpg'' \<noteq> []"
    by (simp add: shared_clip_def)
  from removeClip_associations [OF found keyed, where fileExists' = every_file and A = "''S1''"
      and B = "''S2''" and si = "[(''S1'', at_position 0), (''S2'', at_position 0)]"
      and streamId = None and later = every_file and outcome = "Unlinked False" and del = True]
    two none sprite
  show ?thesis by simp
qed

text \<open>
  Claim C1 does not hold of the code. Two clips added by one manual call to an empty ledger, all
  files present, with or without a stream id: each turn of the loop moves every clip of the
  ledger up by one, the clips of this very call among them, and stores the new clip at its
  index. Both clips end at position 1, none at position 0, globally and in the stream.
\<close>

theorem addClips_manual_batch_collides:
  "global_positions
     (addClips every_file [new_clip ''a.mp4'', new_clip ''b.mp4''] None Manual defaultState)
     = [(''a.mp4'', 1), (''b.mp4'', 1)] \<and>
   \<not> dense_positions (map snd (global_positions
     (addClips every_file [new_clip ''a.mp4'', new_clip ''b.mp4''] None Manual defaultState))) \<and>
   global_positions
     (addClips every_file [new_clip ''a.mp4'', new_clip ''b.mp4''] (Some ''S'') Manual defaultState)
     = [(''a.mp4'', 1), (''b.mp4'', 1)] \<and>
   stream_positions ''S''
     (addClips every_file [new_clip ''a.mp4'', new_clip ''b.mp4''] (Some ''S'') Manual defaultState)
     = [(''a.mp4'', Some 1), (''b.mp4'', Some 1)]"
  by code_simp

text \<open>
  Claim C2, amended. After the segments are cut, \<^verbatim>\<open>renderHighlights\<close> marks the
  stream \<^verbatim>\<open>FINISHED\<close> first, the ledger being still what it was, and calls
  \<^verbatim>\<open>addAiClips\<close> next. When that call reaches its first pause the stream is
  still \<^verbatim>\<open>FINISHED\<close> and every clip of the callback whose file exists is in the
  ledger.
\<close>

theorem renderHighlights_marks_finished_first:
  assumes run: "renderHighlights fileExists' setStreamInfo sid clipData s = trace"
  shows "length trace = 3 \<and>
         stream_state (stream_id setStreamInfo) (trace ! 1) = Some FINISHED \<and>
         clips (trace ! 1) = clips s \<and>
         stream_state (stream_id setStreamInfo) (trace ! 2) = Some FINISHED \<and>
         (\<forall>c \<in> set clipData. fileExists' (new_path c) \<longrightarrow> new_path c \<in> clip_paths (trace ! 2))"
proof -
  let ?s1 = "updateStream setStreamInfo s"
  let ?s2 = "updateStream (setStreamInfo\<lparr>state_type := FINISHED\<rparr>) ?s1"
  let ?s3 = "addAiClips_sync fileExists' clipData sid ?s2"
  from run have trace: "trace = [?s1, ?s2, ?s3]" by (simp add: renderHighlights_def Let_def)
  have f2: "stream_state (stream_id setStreamInfo) ?s2 = Some FINISHED"
    by (simp add: stream_state_def updateStream_def UPDATE_HIGHLIGHTED_STREAM_def update_conv')
  have c2: "clips ?s2 = clips s"
    by (simp add: updateStream_def UPDATE_HIGHLIGHTED_STREAM_def)
  have f3: "stream_state (stream_id setStreamInfo) ?s3 = Some FINISHED"
    using f2 by (simp add: stream_state_def addAiClips_sync_streams)
  have i3: "\<forall>c \<in> set clipData. fileExists' (new_path c) \<longrightarrow> new_path c \<in> clip_paths ?s3"
    by (simp add: addAiClips_sync_ingests)
  from f2 c2 f3 i3 show ?thesis by (simp add: trace)
qed

text \<open>
  Claim C2 on a detection of stream \<^verbatim>\<open>S\<close> that yields one clip.
\<close>

theorem renderHighlights_marks_finished_first_witness:
  "stream_state ''S'' (renderHighlights every_file detecting ''S'' [ai_clip ''c.mp4'' 2] detection_ledger ! 1)
     = Some FINISHED \<and>
   clips (renderHighlights every_file detecting ''S'' [ai_clip ''c.mp4'' 2] detection_ledger ! 1)
     = clips detection_ledger \<and>
   stream_state ''S'' (renderHighlights every_file detecting ''S'' [ai_clip ''c.mp4'' 2] detection_ledger ! 2)
     = Some FINISHED \<and>
   ''c.mp4'' \<in> clip_paths
     (renderHighlights every_file detecting ''S'' [ai_clip ''c.mp4'' 2] detection_ledger ! 2)"
proof -
  have sid: "stream_id detecting = ''S''" by (simp add: detecting_def)
  have c: "ai_clip ''c.mp4'' 2 \<in> set [ai_clip ''c.mp4'' 2]" by simp
  have ex: "every_file (new_path (ai_clip ''c.mp4'' 2))" by (simp add: every_file_def)
  have p: "new_path (ai_clip ''c.mp4'' 2) = ''c.mp4''" by (simp add: ai_clip_def)
  from renderHighlights_marks_finished_first [OF refl, of every_file detecting "''S''"
      "[ai_clip ''c.mp4'' 2]" detection_ledger] sid c ex p
  show ?thesis by fastforce
qed

text \<open>
  Claim C2 as stated fails: in the states that \<^verbatim>\<open>renderHighlights\<close> goes
  through, the second has the stream \<^verbatim>\<open>FINISHED\<close> and the ledger empty; the clip
  of the callback comes in the third.
\<close>

theorem renderHighlights_finished_before_clips:
  "map (\<lambda>s. (stream_state ''S'' s, map path (views_clips s)))
     (renderHighlights every_file detecting ''S'' [ai_clip ''c.mp4'' 2] detection_ledger)
   = [(Some IN_PROGRESS, []), (Some FINISHED, []), (Some FINISHED, [''c.mp4''])]"
  by code_simp

text \<open>
  Claim C3 does not hold of the code. A replay buffer clip gets the number of clips plus one:
  position 1 on the empty ledger, position 2 after one clip at position 0, globally and in the
  stream. The position right after the highest is skipped.
\<close>

theorem addClips_replay_buffer_skips:
  "global_positions (addClips every_file [new_clip ''a.mp4''] None ReplayBuffer defaultState)
     = [(''a.mp4'', 1)] \<and>
   dense_positions (map snd (global_positions (ledger_of [manual_clip ''a.mp4'' 0 None]))) \<and>
   global_positions (addClips every_file [new_clip ''b.mp4''] None ReplayBuffer
      (ledger_of [manual_clip ''a.mp4'' 0 None]))
     = [(''a.mp4'', 0), (''b.mp4'', 2)] \<and>
   \<not> dense_positions (map snd (global_positions
      (addClips every_file [new_clip ''b.mp4''] None ReplayBuffer
         (ledger_of [manual_clip ''a.mp4'' 0 None])))) \<and>
   stream_positions ''S'' (addClips every_file [replay_clip ''b.mp4'' 15] (Some ''S'') ReplayBuffer
      (ledger_of [manual_clip ''a.mp4'' 0 (Some [(''S'', at_position 0)])]))
     = [(''a.mp4'', Some 0), (''b.mp4'', Some 2)]"
  by code_simp

text \<open>
  Claim C4 does not hold of the code, at the first step of its scenario. The two replay buffer
  clips starting at 5 and 15, inserted under stream \<^verbatim>\<open>S\<close> on the empty
  ledger, do not get the positions 0 and 1 in the stream: inserted one call each they get 1 and
  2, inserted in one call 1 and 3. The position is the number of clips of the stream plus one.
\<close>

theorem scenario_replay_positions:
  "stream_positions ''S''
     (addClips every_file [replay_clip ''b.mp4'' 15] (Some ''S'') ReplayBuffer
       (addClips every_file [replay_clip ''a.mp4'' 5] (Some ''S'') ReplayBuffer defaultState))
     = [(''a.mp4'', Some 1), (''b.mp4'', Some 2)] \<and>
   stream_positions ''S''
     (addClips every_file [replay_clip ''a.mp4'' 5, replay_clip ''b.mp4'' 15] (Some ''S'') ReplayBuffer
        defaultState)
     = [(''a.mp4'', Some 1), (''b.mp4'', Some 3)]"
  by code_simp

text \<open>
  Claim C5 does not hold of the code. A clip is associated with the streams
  \<^verbatim>\<open>S\<close> and \<^verbatim>\<open>T\<close>; after
  \<^verbatim>\<open>sortStreamClipsByStartTime\<close> for \<^verbatim>\<open>S\<close> its association
  with \<^verbatim>\<open>T\<close> is gone: the update stores a dictionary that holds the entry of
  \<^verbatim>\<open>S\<close> alone.
\<close>

theorem sortStreamClipsByStartTime_drops_other_streams:
  "map (\<lambda>c. (path c, map_option (map fst) (streamInfo c))) (views_clips in_two_streams)
     = [(''a.mp4'', Some [''S'', ''T''])] \<and>
   map (\<lambda>c. (path c, map_option (map fst) (streamInfo c)))
     (views_clips (sortStreamClipsByStartTime every_file (views_clips in_two_streams) ''S''
        in_two_streams))
     = [(''a.mp4'', Some [''S''])]"
  by code_simp

text \<open>
  Claim C8, amended. \<^verbatim>\<open>export\<close> resets the rendering clips and runs the load
  pass before it tests anything. When the pass goes through and either an export was already
  running or an enabled target clip is still not loaded, the call returns without throwing, in
  the state the pass left; \<open>exporting\<close> is what it was before the call and no render job
  has been handed out. When the pass rejects, the call rejects with the same error. The pass
  goes through whenever \<^verbatim>\<open>RenderingClip.init\<close> resolves for every path.
\<close>

theorem export_guards:
  "(loadClips env streamId (resetRenderingClips s) = Inr s1 \<and>
      (exporting (exportInfo s) \<or> hasUnloadedClips streamId s1) \<longrightarrow>
        export env preview streamId orientation s = Inr s1 \<and>
        exporting (exportInfo s1) = exporting (exportInfo s) \<and>
        render_jobs s1 = render_jobs s) \<and>
   (loadClips env streamId (resetRenderingClips s) = Inl e \<longrightarrow>
        export env preview streamId orientation s = Inl e) \<and>
   ((\<forall>p. init env p \<noteq> None) \<longrightarrow>
        (\<exists>s1. loadClips env streamId (resetRenderingClips s) = Inr s1))"
proof (intro conjI impI)
  assume h: "loadClips env streamId (resetRenderingClips s) = Inr s1 \<and>
      (exporting (exportInfo s) \<or> hasUnloadedClips streamId s1)"
  then have pass: "loadClips env streamId (resetRenderingClips s) = Inr s1"
    and blocked: "exporting (exportInfo s) \<or> hasUnloadedClips streamId s1" by simp_all
  from export_view_loadClips [OF pass]
  have v: "export_view s1 = export_view s"
    by (simp add: resetRenderingClips_def)
  then show same1: "exporting (exportInfo s1) = exporting (exportInfo s)"
    and "render_jobs s1 = render_jobs s"
    by (simp_all add: export_view_def)
  from blocked same1 have "hasUnloadedClips streamId s1 \<or> exporting (exportInfo s1)" by blast
  with pass show "export env preview streamId orientation s = Inr s1"
    by (auto simp add: export_def)
next
  assume "loadClips env streamId (resetRenderingClips s) = Inl e"
  then show "export env preview streamId orientation s = Inl e" by (simp add: export_def)
next
  assume "\<forall>p. init env p \<noteq> None"
  then show "\<exists>s1. loadClips env streamId (resetRenderingClips s) = Inr s1"
    by (rule loadClips_resolves)
qed

text \<open>
  Claim C8 on a ledger of two clips of which \<^verbatim>\<open>a.mp4\<close> vanishes during the load
  pass: the pass stops there, \<^verbatim>\<open>b.mp4\<close> stays unloaded and the export gives up.
  On a ledger of one clip: the export rejects with the pass when
  \<^verbatim>\<open>init\<close> rejects, and the pass goes through when \<^verbatim>\<open>init\<close>
  resolves.
\<close>

theorem export_guards_witness:
  "loadClips vanishing None (resetRenderingClips two_clips)
     = Inr (projr (loadClips vanishing None (resetRenderingClips two_clips))) \<and>
   hasUnloadedClips None (projr (loadClips vanishing None (resetRenderingClips two_clips))) \<and>
   export vanishing False None HORIZONTAL two_clips
     = Inr (projr (loadClips vanishing None (resetRenderingClips two_clips))) \<and>
   exporting (exportInfo (projr (loadClips vanishing None (resetRenderingClips two_clips))))
     = exporting (exportInfo two_clips) \<and>
   render_jobs (projr (loadClips vanishing None (resetRenderingClips two_clips))) = render_jobs two_clips \<and>
   \<not> exporting (exportInfo two_clips) \<and> render_jobs two_clips = [] \<and>
   loadClips rejecting None (resetRenderingClips one_clip) = Inl (Thrown ''init'') \<and>
   export rejecting False None HORIZONTAL one_clip = Inl (Thrown ''init'') \<and>
   loadClips steady None (resetRenderingClips one_clip)
     = Inr (projr (loadClips steady None (resetRenderingClips one_clip)))"
proof -
  have found: "\<forall>p. init steady p \<noteq> None"
    by (simp add: steady_def found_probe_def)
  with export_guards [of steady None one_clip _ False HORIZONTAL]
  have "\<exists>s1. loadClips steady None (resetRenderingClips one_clip) = Inr s1" by blast
  then have c: "loadClips steady None (resetRenderingClips one_clip)
     = Inr (projr (loadClips steady None (resetRenderingClips one_clip)))" by auto
  have pass: "loadClips vanishing None (resetRenderingClips two_clips)
      = Inr (projr (loadClips vanishing None (resetRenderingClips two_clips)))"
    by code_simp
  have un: "hasUnloadedClips None (projr (loadClips vanishing None (resetRenderingClips two_clips)))"
    by code_simp
  have init: "\<not> exporting (exportInfo two_clips) \<and> render_jobs two_clips = []"
    by code_simp
  have rej: "loadClips rejecting None (resetRenderingClips one_clip) = Inl (Thrown ''init'')"
    by code_simp
  from export_guards [of vanishing None two_clips
      "projr (loadClips vanishing None (resetRenderingClips two_clips))" False HORIZONTAL]
    pass un init
  have a: "export vanishing False None HORIZONTAL two_clips
     = Inr (projr (loadClips vanishing None (resetRenderingClips two_clips))) \<and>
   exporting (exportInfo (projr (loadClips vanishing None (resetRenderingClips two_clips))))
     = exporting (exportInfo two_clips) \<and>
   render_jobs (projr (loadClips vanishing None (resetRenderingClips two_clips))) = render_jobs two_clips"
    by blast
  from export_guards [of rejecting None one_clip _ False HORIZONTAL "Thrown ''init''"] rej
  have b: "export rejecting False None HORIZONTAL one_clip = Inl (Thrown ''init'')" by blast
  from pass un init rej a b c show ?thesis by simp
qed

text \<open>
  Claim C8 as stated fails. Called while an export is running, \<^verbatim>\<open>export\<close>
  returns with \<open>exporting\<close> still true, not false, and it has not done nothing: the
  clip of the ledger has been loaded in the meantime. And when
  \<^verbatim>\<open>RenderingClip.init\<close> rejects, the call rejects, with an export running as
  well as with an unloaded clip: it does not return without throwing.
\<close>

theorem export_while_exporting_stays_exporting:
  "exporting (exportInfo exporting_one_clip) \<and>
   map loaded (views_clips exporting_one_clip) = [False] \<and>
   map_sum id (\<lambda>s. (exporting (exportInfo s), render_jobs s, map loaded (views_clips s)))
     (export steady False None HORIZONTAL exporting_one_clip) = Inr (True, [], [True]) \<and>
   export rejecting False None HORIZONTAL exporting_one_clip = Inl (Thrown ''init'') \<and>
   export rejecting False None HORIZONTAL one_clip = Inl (Thrown ''init'')"
  by code_simp

text \<open>
  Claim C9 does not hold of the code. An upload to a storage platform is running and its
  cancellation has been requested; \<^verbatim>\<open>uploadStorage\<close> for the same platform is
  not rejected and rewrites the upload record (the request for cancellation is lost), where
  \<^verbatim>\<open>uploadYoutube\<close> in the same state throws before it changes anything.
\<close>

theorem uploadStorage_not_guarded:
  "list_ex (\<lambda>u. platform u = StoragePlatform ''crossclip'' \<and> uploading u) (uploads storage_busy) \<and>
   uploadStorage_start (StoragePlatform ''crossclip'') storage_busy
     = Inr (storage_busy\<lparr>uploads :=
         [\<lparr>platform = StoragePlatform ''crossclip'', uploading = True, uploadedBytes = 10,
           totalBytes = 100, upload_cancelRequested = False, videoId = None,
           upload_error = False\<rparr>]\<rparr>) \<and>
   uploadStorage_start (StoragePlatform ''crossclip'') storage_busy \<noteq> Inr storage_busy \<and>
   uploadYoutube_start True storage_busy
     = Inl (Thrown ''Cannot start a new upload when uploading is in progress'')"
  by (simp add: storage_busy_def uploadStorage_start_def uploadYoutube_start_def
      SET_UPLOAD_INFO_def defaultState_def)

end
